theory Spec2Isabelle
  imports Main "HOL-Library.Word"
begin

unbundle bit_operations_syntax

section \<open>StarEngine: the DX12 frame queue and the shader asset builder\<close>

text \<open>
  A shallow embedding of \<^verbatim>\<open>Star/DX12Engine/SDX12FrameQueue.cpp\<close> (the frame ring,
  \<^verbatim>\<open>initPipeline\<close>, \<^verbatim>\<open>beginFrame\<close>, \<^verbatim>\<open>renderFrame\<close>, \<^verbatim>\<open>endFrame\<close> and the dynamic
  descriptor resolver) and of the per-stage code of \<^verbatim>\<open>buildShaderData\<close> in the shader
  asset builder.

  Conventions. A C++ struct is a record whose fields keep the C++ member names behind a
  short prefix (field names are global in HOL). A \<^verbatim>\<open>std::variant\<close> of tag types is a
  datatype; the C++ tag types end in an underscore (\<^verbatim>\<open>Dynamic_\<close>, \<^verbatim>\<open>Data::View_\<close>), which a
  HOL constant cannot, so the constructors drop it. \<^verbatim>\<open>uint32_t\<close> and \<^verbatim>\<open>uint64_t\<close> are words, so \<open>+\<close> wraps. A \<^verbatim>\<open>throw\<close>, a failed
  \<^verbatim>\<open>Expects\<close>/\<^verbatim>\<open>Ensures\<close> and a throwing \<^verbatim>\<open>.at()\<close> are values of the type \<open>error\<close>; an
  unchecked \<^verbatim>\<open>operator[]\<close> out of range and a division by zero are undefined in C++ and
  are made the error \<open>UndefinedBehaviour\<close>, so that no theorem rests on an unspecified
  value. Calls into Direct3D and into the engine's allocators (their code is not part
  of these two files) are recorded, in program order, as a list of events and are taken
  to return normally.
\<close>

subsection \<open>Machine types and errors\<close>

type_synonym uint32_t = "32 word"
type_synonym uint64_t = "64 word"
type_synonym byte = "8 word"

datatype error =
    ExpectsViolation
  | RuntimeError string
  | InvalidArgument string
  | OutOfRange
  | UndefinedBehaviour

text \<open>\<^verbatim>\<open>v.at(i)\<close> throws \<^verbatim>\<open>std::out_of_range\<close>; \<^verbatim>\<open>v[i]\<close> out of range is undefined.\<close>

definition at :: "'a list \<Rightarrow> nat \<Rightarrow> error + 'a" where
  "at xs i = (if i < length xs then Inr (xs ! i) else Inl OutOfRange)"

definition subscript :: "'a list \<Rightarrow> nat \<Rightarrow> error + 'a" where
  "subscript xs i = (if i < length xs then Inr (xs ! i) else Inl UndefinedBehaviour)"

subsection \<open>Resource states\<close>

text \<open>
  The engine's \<^verbatim>\<open>RESOURCE_STATE_*\<close> enumerators are cast to \<^verbatim>\<open>D3D12_RESOURCE_STATES\<close>
  unchanged; the values are those of \<^verbatim>\<open>d3d12.h\<close>.
\<close>

type_synonym RESOURCE_STATES = "32 word"

definition RESOURCE_STATE_COMMON :: RESOURCE_STATES where
  "RESOURCE_STATE_COMMON = 0"

definition RESOURCE_STATE_RENDER_TARGET :: RESOURCE_STATES where
  "RESOURCE_STATE_RENDER_TARGET = 4"

definition D3D12_RESOURCE_STATE_PRESENT :: RESOURCE_STATES where
  "D3D12_RESOURCE_STATE_PRESENT = 0"

definition D3D12_RESOURCE_STATE_RENDER_TARGET :: RESOURCE_STATES where
  "D3D12_RESOURCE_STATE_RENDER_TARGET = 4"

subsection \<open>Matrices as bytes\<close>

text \<open>
  \<^verbatim>\<open>Matrix4f\<close> is sixteen floats; a float is kept as its 32-bit pattern, stored little
  endian. Coefficient \<open>i\<close> of a matrix \<open>m\<close> is \<open>m i\<close> for \<open>i < 16\<close>. The values
  themselves (camera set-up, matrix product) are floating point and stay parameters.
\<close>

type_synonym Matrix4f = "nat \<Rightarrow> 32 word"

definition float_bytes :: "32 word \<Rightarrow> byte list" where
  "float_bytes w = map (\<lambda>k. ucast (drop_bit (8 * k) w)) [0, 1, 2, 3]"

definition matrix_bytes :: "Matrix4f \<Rightarrow> byte list" where
  "matrix_bytes m = concat (map (\<lambda>i. float_bytes (m i)) [0..<16])"

definition sizeof_Matrix4f :: nat where
  "sizeof_Matrix4f = 64"

record CameraData =
  mView :: Matrix4f
  mProj :: Matrix4f

subsection \<open>The shader binding description\<close>

datatype Persistency = Persistent | Dynamic

datatype RootType = Constants | CBV | UAV | SRV | Table | SSV

text \<open>
  Modelled from the spec: the declaration of \<^verbatim>\<open>UpdateEnum\<close> is not in the two files; the
  spec gives the enumerators and their order, PerFrame < PerPass < PerBatch < PerDraw.
\<close>

datatype UpdateEnum = PerFrame | PerPass | PerBatch | PerDraw

fun update_rank :: "UpdateEnum \<Rightarrow> nat" where
  "update_rank PerFrame = 0"
| "update_rank PerPass = 1"
| "update_rank PerBatch = 2"
| "update_rank PerDraw = 3"

record DescriptorIndex =
  mUpdate :: UpdateEnum
  mType :: RootType
  mPersistency :: Persistency

datatype Source = EngineSource | RenderTargetSource | MaterialSource

datatype DataType = Data_Proj | Data_View | Data_WorldView | Data_WorldInvT | Data_monostate

datatype DescriptorType =
  Descriptor_ConstantBuffer | Descriptor_MainTex | Descriptor_PointSampler | Descriptor_LinearSampler | Descriptor_monostate

record Constant =
  constant_mSource :: Source
  constant_mDataType :: DataType

record ConstantBuffer =
  cb_mIndex :: DescriptorIndex
  cb_mSize :: uint32_t
  cb_mConstants :: "Constant list"

record Attribute =
  attr_mDataType :: DescriptorType

record Subrange =
  subrange_mSource :: Source
  subrange_mDescriptors :: "Attribute list"

record Range =
  range_mSubranges :: "Subrange list"

record DescriptorList =
  list_mSlot :: uint32_t
  list_mGpuOffset :: uint64_t
  list_mCapacity :: nat
  list_mRanges :: "Range list"

record Collection =
  collection_mIndex :: DescriptorIndex
  collection_mResourceViewLists :: "DescriptorList list"
  collection_mSamplerLists :: "DescriptorList list"

subsection \<open>Materials, meshes and draw items\<close>

record ShaderSubpassData =
  mVertexLayoutIndex :: "nat list"
  mStates :: "nat list"
  shader_mConstantBuffers :: "ConstantBuffer list"

record MaterialSubpassData =
  mCollections :: "Collection list"

text \<open>
  \<^verbatim>\<open>getSubpassData\<close> and the layout of \<^verbatim>\<open>mShaderData\<close> belong to the material code, which
  is not in the two files. A material is therefore its \<^verbatim>\<open>getSubpassData\<close>, a function of
  \<open>(solutionID, pipelineID, passID, subpassID)\<close> that may throw. Of what it returns,
  \<open>queue_subpasses\<close> is the value of \<^verbatim>\<open>queue.mLevels.at(0).mPasses.at(0).mSubpasses\<close> and
  \<open>queue_materialSubpasses\<close> is the vector
  \<^verbatim>\<open>mShaderData.at(s).mPipelines.at(p).mQueues.at(q).mLevels.at(0).mPasses.at(0).mSubpasses\<close>
  for the three ids \<^verbatim>\<open>getSubpassData\<close> gave back; a throwing \<^verbatim>\<open>.at()\<close> on the way is the
  \<open>Inl\<close>. A pipeline state object is named by a number, 0 for the null pointer.
\<close>

record ShaderQueueData =
  queue_subpasses :: "error + ShaderSubpassData list"
  queue_materialSubpasses :: "error + MaterialSubpassData list"

record Material =
  getSubpassData :: "uint32_t \<Rightarrow> uint32_t \<Rightarrow> uint32_t \<Rightarrow> uint32_t \<Rightarrow> error + ShaderQueueData"

record SubMesh =
  mIndexCount :: uint32_t
  mIndexOffset :: uint32_t

record Mesh =
  mSubMeshes :: "SubMesh list"
  mPrimitiveTopology :: uint32_t
  mVertexBufferViews :: "nat list"
  mIndexBufferLocation :: uint64_t
  mLayoutID :: nat

record MeshRenderer =
  mMaterials :: "Material list"
  mMesh :: Mesh

record FlattenedObjects =
  mWorldTransforms :: "Matrix4f list"
  mWorldTransformInvs :: "Matrix4f list"
  mMeshRenderers :: "MeshRenderer list"

datatype DrawCallType = FullScreenTriangle | DrawCall_monostate

record DrawCall =
  dc_mType :: DrawCallType
  dc_mMaterial :: Material

datatype ObjectType = Tag_DrawCall | Tag_ObjectBatch

record ObjectID =
  object_mIndex :: nat
  object_mType :: ObjectType

record Content =
  mIDs :: "ObjectID list"
  mDrawCalls :: "DrawCall list"
  mFlattenedObjects :: "FlattenedObjects list"

record RenderQueue =
  mContents :: "Content list"

subsection \<open>The render graph\<close>

datatype LoadOp =
    ClearColor "32 word list"
  | ClearDepthStencil bool bool "32 word" byte
  | OtherLoadOp

record Attachment =
  att_mHandle :: uint32_t
  att_mLoadOp :: LoadOp

record ViewTransition =
  t_mFramebuffer :: uint32_t
  t_mSource :: RESOURCE_STATES
  t_mTarget :: RESOURCE_STATES

datatype VIEWPORT = VIEWPORT "32 word" "32 word" "32 word" "32 word" "32 word" "32 word"

datatype RECT = RECT "32 word" "32 word" "32 word" "32 word"

record Subpass =
  mOutputAttachments :: "Attachment list"
  mDepthStencilAttachment :: "Attachment option"
  mOrderedRenderQueue :: "RenderQueue list"
  mRootSignature :: nat
  mDescriptors :: "Collection list"
  mConstantBuffers :: "ConstantBuffer list"
  mPostViewTransitions :: "ViewTransition list"

record Pass =
  mViewports :: "VIEWPORT list"
  mScissorRects :: "RECT list"
  mGraphicsSubpasses :: "Subpass list"

record Pipeline =
  mPasses :: "Pass list"
  mRTVInitialStates :: "RESOURCE_STATES list"

record RenderSolution =
  mPipelines :: "Pipeline list"
  mRTVSources :: "uint32_t list"

text \<open>
  A framebuffer of the render graph is named by a number (the \<^verbatim>\<open>ID3D12Resource\<close> it
  points to); a render-target or depth-stencil view is named by its index in \<^verbatim>\<open>mRTVs\<close>
  or \<^verbatim>\<open>mDSVs\<close>, the argument of \<^verbatim>\<open>getCpuHandle\<close>.
\<close>

record RenderWorks =
  mFramebuffers :: "nat list"
  mNumBackBuffers :: uint32_t

subsection \<open>Recorded calls\<close>

text \<open>
  \<open>Transition r before after\<close> is \<^verbatim>\<open>CD3DX12_RESOURCE_BARRIER::Transition(r, before, after)\<close>.
  A descriptor table is bound either at a stored GPU offset (\<^verbatim>\<open>list.mGpuOffset\<close>) or at the
  start of the range \<^verbatim>\<open>allocateCircular(capacity)\<close> has just returned. The commands are the
  calls on the command list with the arguments the source gives them; the clear flags of
  \<^verbatim>\<open>ClearDepthStencilView\<close> are the two booleans depth and stencil. The other events are
  the calls on the descriptor heap, the upload buffer, the device, the direct queue and
  the fence: \<open>AllocateCircular capacity\<close>, \<open>Upload bytes\<close>,
  \<open>CreateConstantBufferView SizeInBytes descID\<close>, and the resets of the command allocator
  and list of a ring slot.
\<close>

datatype barrier = Transition nat RESOURCE_STATES RESOURCE_STATES

datatype table_handle = StoredGpuOffset uint64_t | CircularGpuHandle nat

datatype command =
    ResourceBarrier "barrier list"
  | SetDescriptorHeaps
  | RSSetViewports "VIEWPORT list"
  | RSSetScissorRects "RECT list"
  | ClearRenderTargetView uint32_t "32 word list"
  | ClearDepthStencilView uint32_t bool bool "32 word" byte
  | OMSetRenderTargets "uint32_t list" "uint32_t option"
  | SetGraphicsRootSignature nat
  | SetGraphicsRootDescriptorTable uint32_t table_handle
  | IASetPrimitiveTopology uint32_t
  | IASetVertexBuffers "nat list"
  | IASetIndexBuffer "uint64_t option"
  | SetPipelineState nat
  | DrawInstanced nat nat nat nat
  | DrawIndexedInstanced uint32_t nat uint32_t nat nat
  | Close

datatype event =
    Cmd command
  | AllocateCircular nat
  | Upload "byte list"
  | CreateConstantBufferView nat nat
  | ExecuteCommandLists
  | WaitForFence uint64_t
  | ResetCommandAllocator nat
  | ResetCommandList nat
  | DescriptorsAdvanceFrame
  | UploadBufferAdvanceFrame
  | SetEventOnCompletion uint64_t
  | Signal uint64_t

definition commands :: "event list \<Rightarrow> command list" where
  "commands es = concat (map (\<lambda>e. case e of Cmd c \<Rightarrow> [c] | _ \<Rightarrow> []) es)"

subsection \<open>Frame contexts, the frame queue and the fence\<close>

text \<open>
  Of a frame context the members that the two files read are kept; the render solution
  and render graph it points to are kept by value, since nothing changes them during a
  frame. Its command allocator, command list and back-buffer handles are Direct3D
  objects: what happens to them is in the recorded calls. The swap chain is what
  \<^verbatim>\<open>beginFrame\<close> and \<^verbatim>\<open>initPipeline\<close> ask of it.
\<close>

record FrameContext =
  mFrameFenceId :: uint64_t
  mBackBufferIndex :: uint32_t
  mBackBufferCount :: uint32_t
  mRenderSolution :: RenderSolution
  mRenderWorks :: RenderWorks
  mSolutionID :: uint32_t
  mPipelineID :: uint32_t

record FrameQueue =
  mNextFrameFence :: uint64_t
  mNextFrameIndex :: uint32_t
  mFrames :: "FrameContext list"

record SwapChain =
  sc_mSwapChain :: bool
  sc_GetCurrentBackBufferIndex :: uint32_t
  sc_mRenderGraph :: RenderWorks
  sc_currentSolution :: RenderSolution
  sc_getSolutionID :: uint32_t
  sc_getPipelineID :: uint32_t

text \<open>
  The fence as the CPU sees it: \<open>completed\<close> is \<^verbatim>\<open>GetCompletedValue()\<close>; \<open>pending\<close> are
  the values of the \<^verbatim>\<open>Signal\<close> commands queued on the direct queue that the GPU has not
  reached yet, oldest first.
\<close>

record gpu =
  completed :: uint64_t
  pending :: "uint64_t list"

text \<open>
  Modelled from the spec: \<^verbatim>\<open>DX12::waitForFence\<close> is not in the two files. It "blocks
  (OS wait primitive, not cooperative yield) until the GPU has retired the frame": the
  GPU retires queued signals one after the other until the fence has reached the value
  waited for. When the queue runs dry before that, the wait never ends: \<open>None\<close>.
\<close>

fun retire :: "uint64_t \<Rightarrow> uint64_t list \<Rightarrow> uint64_t \<Rightarrow> (uint64_t \<times> uint64_t list) option" where
  "retire c [] v = (if v \<le> c then Some (c, []) else None)"
| "retire c (s # ss) v = (if v \<le> c then Some (c, s # ss) else retire s ss v)"

definition waitForFence :: "gpu \<Rightarrow> uint64_t \<Rightarrow> gpu option" where
  "waitForFence g v =
     (case retire (completed g) (pending g) v of
        None \<Rightarrow> None
      | Some (c, p) \<Rightarrow> Some (g\<lparr>completed := c, pending := p\<rparr>))"

datatype 'a outcome =
    Returned 'a
  | Raised error
  | Blocked FrameQueue "event list"

text \<open>
  \<^verbatim>\<open>beginFrame\<close>. The result is the index of the slot \<^verbatim>\<open>pFrame\<close> points to, the queue,
  the fence and the calls made. \<open>Blocked\<close> carries the queue as it stands while the wait
  never ends.
\<close>

definition beginFrame ::
  "FrameQueue \<Rightarrow> SwapChain \<Rightarrow> gpu \<Rightarrow> (nat \<times> FrameQueue \<times> gpu \<times> event list) outcome" where
  "beginFrame q sc g =
     (if \<not> sc_mSwapChain sc then Raised ExpectsViolation
      else
        let FrameFence = mNextFrameFence q;
            q1 = q\<lparr>mNextFrameFence := mNextFrameFence q + 1\<rparr>;
            FrameIndex = mNextFrameIndex q1
        in if (word_of_nat (length (mFrames q1)) :: uint32_t) = 0 then Raised UndefinedBehaviour
        else
          let q2 = q1\<lparr>mNextFrameIndex :=
                      (mNextFrameIndex q1 + 1) mod word_of_nat (length (mFrames q1))\<rparr>
          in case subscript (mFrames q2) (unat FrameIndex) of
               Inl e \<Rightarrow> Raised e
             | Inr pFrame \<Rightarrow>
                (case waitForFence g (mFrameFenceId pFrame) of
                   None \<Rightarrow> Blocked q2 [WaitForFence (mFrameFenceId pFrame)]
                 | Some g' \<Rightarrow>
                    let backBufferIndex = sc_GetCurrentBackBufferIndex sc;
                        pFrame' = pFrame
                          \<lparr>mFrameFenceId := FrameFence,
                           mBackBufferIndex := backBufferIndex,
                           mBackBufferCount := mNumBackBuffers (sc_mRenderGraph sc),
                           mRenderSolution := sc_currentSolution sc,
                           mRenderWorks := sc_mRenderGraph sc,
                           mSolutionID := sc_getSolutionID sc,
                           mPipelineID := sc_getPipelineID sc\<rparr>
                    in Returned
                         (unat FrameIndex,
                          q2\<lparr>mFrames := (mFrames q2)[unat FrameIndex := pFrame']\<rparr>,
                          g',
                          [WaitForFence (mFrameFenceId pFrame),
                           ResetCommandAllocator (unat FrameIndex),
                           ResetCommandList (unat FrameIndex),
                           DescriptorsAdvanceFrame,
                           UploadBufferAdvanceFrame])))"

text \<open>\<^verbatim>\<open>endFrame\<close>: the fence is asked to signal the frame's value once the queue gets there.\<close>

definition endFrame :: "FrameContext \<Rightarrow> gpu \<Rightarrow> gpu \<times> event list" where
  "endFrame pFrame g =
     (g\<lparr>pending := pending g @ [mFrameFenceId pFrame]\<rparr>,
      [SetEventOnCompletion (mFrameFenceId pFrame), Signal (mFrameFenceId pFrame)])"

text \<open>
  \<open>N\<close> calls of \<^verbatim>\<open>beginFrame\<close> on one queue. Between two calls the swap chain and the
  fence may have changed in any way, so each call gets its own; the result lists, for
  each call, the slot it used and the fence value of the context it returned.
\<close>

fun beginFrames :: "FrameQueue \<Rightarrow> (SwapChain \<times> gpu) list \<Rightarrow> (nat \<times> uint64_t) list option" where
  "beginFrames q [] = Some []"
| "beginFrames q ((sc, g) # envs) =
     (case beginFrame q sc g of
        Returned (i, q', g', log) \<Rightarrow>
          (case beginFrames q' envs of
             None \<Rightarrow> None
           | Some rs \<Rightarrow> Some ((i, mFrameFenceId (mFrames q' ! i)) # rs))
      | Raised e \<Rightarrow> None
      | Blocked qb log \<Rightarrow> None)"

text \<open>
  \<^verbatim>\<open>initPipeline\<close>. \<^verbatim>\<open>sc.currentPipeline()\<close> is read as the frame context's own
  \<^verbatim>\<open>currentPipeline\<close> is written: \<^verbatim>\<open>mPipelines[mPipelineID]\<close>. Every barrier is its own
  \<^verbatim>\<open>ResourceBarrier\<close> call; the arguments of \<^verbatim>\<open>Transition\<close> are the resource, the state
  before and the state after, in the order the source passes them.
\<close>

definition initBarrier ::
  "SwapChain \<Rightarrow> nat \<Rightarrow> RESOURCE_STATES \<Rightarrow> error + event list" where
  "initBarrier sc k state =
     (if state = RESOURCE_STATE_COMMON \<or> state = RESOURCE_STATE_RENDER_TARGET then Inr []
      else
        case subscript (mRTVSources (sc_currentSolution sc)) k of
          Inl e \<Rightarrow> Inl e
        | Inr resourceID \<Rightarrow>
           (case at (mFramebuffers (sc_mRenderGraph sc)) (unat resourceID) of
              Inl e \<Rightarrow> Inl e
            | Inr resource \<Rightarrow>
                Inr [Cmd (ResourceBarrier [Transition resource RESOURCE_STATE_RENDER_TARGET state])]))"

fun initBarriers :: "SwapChain \<Rightarrow> nat \<Rightarrow> RESOURCE_STATES list \<Rightarrow> error + event list" where
  "initBarriers sc k [] = Inr []"
| "initBarriers sc k (state # states) =
     (case initBarrier sc k state of
        Inl e \<Rightarrow> Inl e
      | Inr es \<Rightarrow>
         (case initBarriers sc (Suc k) states of
            Inl e \<Rightarrow> Inl e
          | Inr es' \<Rightarrow> Inr (es @ es')))"

definition initPipeline ::
  "FrameQueue \<Rightarrow> SwapChain \<Rightarrow> gpu \<Rightarrow> (FrameQueue \<times> gpu \<times> event list) outcome" where
  "initPipeline q sc g =
     (case beginFrame q sc g of
        Raised e \<Rightarrow> Raised e
      | Blocked qb log \<Rightarrow> Blocked qb log
      | Returned (i, q', g', log) \<Rightarrow>
         (case subscript (mPipelines (sc_currentSolution sc)) (unat (sc_getPipelineID sc)) of
            Inl e \<Rightarrow> Raised e
          | Inr pipeline \<Rightarrow>
             (case initBarriers sc 0 (mRTVInitialStates pipeline) of
                Inl e \<Rightarrow> Raised e
              | Inr es \<Rightarrow>
                 (case endFrame (mFrames q' ! i) g' of
                    (g'', log') \<Rightarrow>
                      Returned (q', g'', log @ es @ [Cmd Close, ExecuteCommandLists] @ log')))))"

definition barriers_of :: "event list \<Rightarrow> barrier list" where
  "barriers_of es =
     concat (map (\<lambda>e. case e of Cmd (ResourceBarrier bs) \<Rightarrow> bs | _ \<Rightarrow> []) es)"

subsection \<open>Recording with failure\<close>

text \<open>
  A piece of \<^verbatim>\<open>renderFrame\<close> yields the calls it made and either the exception that
  ended it or its result. The calls made before a \<^verbatim>\<open>throw\<close> stay recorded.
\<close>

type_synonym 'a recorded = "event list \<times> (error + 'a)"

definition finished :: "'a \<Rightarrow> 'a recorded" where
  "finished x = ([], Inr x)"

definition thrown :: "error \<Rightarrow> 'a recorded" where
  "thrown e = ([], Inl e)"

definition record_calls :: "event list \<Rightarrow> 'a \<Rightarrow> 'a recorded" where
  "record_calls es x = (es, Inr x)"

definition and_then :: "'a recorded \<Rightarrow> ('a \<Rightarrow> 'b recorded) \<Rightarrow> 'b recorded" where
  "and_then m f =
     (case m of
        (es, Inl e) \<Rightarrow> (es, Inl e)
      | (es, Inr x) \<Rightarrow> (case f x of (es', r) \<Rightarrow> (es @ es', r)))"

fun for_each :: "('s \<Rightarrow> 'a \<Rightarrow> 's recorded) \<Rightarrow> 's \<Rightarrow> 'a list \<Rightarrow> 's recorded" where
  "for_each f s [] = ([], Inr s)"
| "for_each f s (x # xs) =
     (case f s x of
        (es, Inl e) \<Rightarrow> (es, Inl e)
      | (es, Inr s') \<Rightarrow> (case for_each f s' xs of (es', r) \<Rightarrow> (es @ es', r)))"

fun fold_error :: "('s \<Rightarrow> 'a \<Rightarrow> error + 's) \<Rightarrow> 's \<Rightarrow> 'a list \<Rightarrow> error + 's" where
  "fold_error f s [] = Inr s"
| "fold_error f s (x # xs) =
     (case f s x of Inl e \<Rightarrow> Inl e | Inr s' \<Rightarrow> fold_error f s' xs)"

subsection \<open>Constant buffers\<close>

text \<open>
  \<^verbatim>\<open>boost::alignment::align_up(value, alignment)\<close> for an integer \<open>value\<close>:
  \<^verbatim>\<open>T((value + (T(alignment) - 1)) & ~T(alignment - 1))\<close> in the type \<open>T\<close> of the value, here
  the \<^verbatim>\<open>uint32_t\<close> of \<^verbatim>\<open>cb.mSize\<close>; the sum wraps.
\<close>

definition align_up :: "uint32_t \<Rightarrow> uint32_t \<Rightarrow> uint32_t" where
  "align_up v a = (v + (a - 1)) AND NOT (a - 1)"

text \<open>
  The buffer being filled and \<^verbatim>\<open>pData\<close>, as an offset into it. One field:
  \<^verbatim>\<open>Expects(pData + sizeof(m) <= data() + size()); memcpy(pData, &m, sizeof(m)); pData += sizeof(m)\<close>.
\<close>

type_synonym cb_cursor = "byte list \<times> nat"

definition write_matrix :: "cb_cursor \<Rightarrow> Matrix4f \<Rightarrow> error + cb_cursor" where
  "write_matrix st m =
     (case st of (buf, pData) \<Rightarrow>
        if pData + sizeof_Matrix4f \<le> length buf
        then Inr (take pData buf @ matrix_bytes m @ drop (pData + sizeof_Matrix4f) buf,
                  pData + sizeof_Matrix4f)
        else Inl ExpectsViolation)"

text \<open>The field visitor of \<^verbatim>\<open>buildDynamicDescriptors\<close> (per draw, per instance).\<close>

definition writeInstanceConstant ::
  "(Matrix4f \<Rightarrow> Matrix4f \<Rightarrow> Matrix4f) \<Rightarrow> CameraData \<Rightarrow> FlattenedObjects option \<Rightarrow> nat \<Rightarrow>
   cb_cursor \<Rightarrow> Constant \<Rightarrow> error + cb_cursor" where
  "writeInstanceConstant mul cam pBatch objectID st constant =
     (case constant_mSource constant of
        EngineSource \<Rightarrow>
          (case constant_mDataType constant of
             Data_Proj \<Rightarrow> Inl (RuntimeError ''Proj cannot be per instance'')
           | Data_View \<Rightarrow> Inl (RuntimeError ''View cannot be per instance'')
           | Data_WorldView \<Rightarrow>
               (case pBatch of
                  None \<Rightarrow> Inl (RuntimeError ''batch is nullptr'')
                | Some batch \<Rightarrow>
                   (case subscript (mWorldTransforms batch) objectID of
                      Inl e \<Rightarrow> Inl e
                    | Inr world \<Rightarrow> write_matrix st (mul (mView cam) world)))
           | Data_WorldInvT \<Rightarrow>
               (case pBatch of
                  None \<Rightarrow> Inl (RuntimeError ''batch is nullptr'')
                | Some batch \<Rightarrow>
                   (case subscript (mWorldTransformInvs batch) objectID of
                      Inl e \<Rightarrow> Inl e
                    | Inr worldInvT \<Rightarrow> write_matrix st worldInvT))
           | Data_monostate \<Rightarrow> Inl (RuntimeError ''engine source constant cannot be monostate''))
      | RenderTargetSource \<Rightarrow> Inl (RuntimeError ''dynamic constant cannot be render target source'')
      | MaterialSource \<Rightarrow> Inl (RuntimeError ''dynamic constant cannot be material source''))"

text \<open>The field visitor of the PerPass resolver in \<^verbatim>\<open>renderFrame\<close>.\<close>

definition writePassConstant :: "CameraData \<Rightarrow> cb_cursor \<Rightarrow> Constant \<Rightarrow> error + cb_cursor" where
  "writePassConstant cam st constant =
     (case constant_mSource constant of
        EngineSource \<Rightarrow>
          (case constant_mDataType constant of
             Data_Proj \<Rightarrow> write_matrix st (mProj cam)
           | Data_View \<Rightarrow> write_matrix st (mView cam)
           | Data_WorldView \<Rightarrow> Inl (RuntimeError ''WorldView cannot be per pass'')
           | Data_WorldInvT \<Rightarrow> Inl (RuntimeError ''WorldInvT cannot be per pass'')
           | Data_monostate \<Rightarrow> Inl (RuntimeError ''engine source constant cannot be monostate''))
      | RenderTargetSource \<Rightarrow> Inl (RuntimeError ''dynamic constant cannot be render target source'')
      | MaterialSource \<Rightarrow> Inl (RuntimeError ''dynamic constant cannot be material source''))"

text \<open>
  The body run for the constant buffer that matches:
  \<^verbatim>\<open>Expects(cb.mSize)\<close>, \<^verbatim>\<open>clear(); resize(align_up(cb.mSize, 256))\<close> (all bytes zero), then
  the fields in declared order. The result is the payload.
\<close>

definition buildCB :: "(cb_cursor \<Rightarrow> Constant \<Rightarrow> error + cb_cursor) \<Rightarrow> ConstantBuffer \<Rightarrow> error + byte list" where
  "buildCB writeConstant cb =
     (if cb_mSize cb = 0 then Inl ExpectsViolation
      else
        case fold_error writeConstant (replicate (unat (align_up (cb_mSize cb) 256)) 0, 0)
               (cb_mConstants cb) of
          Inl e \<Rightarrow> Inl e
        | Inr (buf, pData) \<Rightarrow> Inr buf)"

text \<open>
  The search: the loop over the declared constant buffers skips those whose index
  differs (\<^verbatim>\<open>operator!=\<close> of the index is taken to compare all members), handles the
  first that matches and leaves with \<^verbatim>\<open>break\<close>; \<^verbatim>\<open>foundDescriptor\<close> still false after
  the loop throws. The payload is uploaded and a constant-buffer view of
  \<^verbatim>\<open>(uint32_t)size()\<close> bytes is created at \<^verbatim>\<open>descID\<close>.
\<close>

fun resolveConstantBuffer ::
  "(cb_cursor \<Rightarrow> Constant \<Rightarrow> error + cb_cursor) \<Rightarrow> ConstantBuffer list \<Rightarrow> DescriptorIndex \<Rightarrow> nat \<Rightarrow>
   unit recorded" where
  "resolveConstantBuffer writeConstant [] index descID =
     ([], Inl (RuntimeError ''constant buffer not found''))"
| "resolveConstantBuffer writeConstant (cb # cbs) index descID =
     (if cb_mIndex cb \<noteq> index then resolveConstantBuffer writeConstant cbs index descID
      else
        case buildCB writeConstant cb of
          Inl e \<Rightarrow> ([], Inl e)
        | Inr payload \<Rightarrow>
            ([Upload payload,
              CreateConstantBufferView (unat (word_of_nat (length payload) :: uint32_t)) descID],
             Inr ()))"

subsection \<open>buildDynamicDescriptors: the per-draw resolver\<close>

definition instanceAttribute ::
  "(Matrix4f \<Rightarrow> Matrix4f \<Rightarrow> Matrix4f) \<Rightarrow> CameraData \<Rightarrow> FlattenedObjects option \<Rightarrow> nat \<Rightarrow>
   ShaderSubpassData \<Rightarrow> Collection \<Rightarrow> nat \<Rightarrow> Attribute \<Rightarrow> nat recorded" where
  "instanceAttribute mul cam pBatch objectID shaderSubpass collection descID attr =
     and_then
       (case attr_mDataType attr of
          Descriptor_ConstantBuffer \<Rightarrow>
            resolveConstantBuffer (writeInstanceConstant mul cam pBatch objectID)
              (shader_mConstantBuffers shaderSubpass) (collection_mIndex collection) descID
        | Descriptor_MainTex \<Rightarrow> thrown (RuntimeError ''not supported yet'')
        | Descriptor_PointSampler \<Rightarrow> finished ()
        | Descriptor_LinearSampler \<Rightarrow> finished ()
        | Descriptor_monostate \<Rightarrow> thrown (RuntimeError ''engine source should not be std::monostate''))
       (\<lambda>u. finished (descID + 1))"

definition instanceSubrange ::
  "(Matrix4f \<Rightarrow> Matrix4f \<Rightarrow> Matrix4f) \<Rightarrow> CameraData \<Rightarrow> FlattenedObjects option \<Rightarrow> nat \<Rightarrow>
   ShaderSubpassData \<Rightarrow> Collection \<Rightarrow> nat \<Rightarrow> Subrange \<Rightarrow> nat recorded" where
  "instanceSubrange mul cam pBatch objectID shaderSubpass collection descID subrange =
     (case subrange_mSource subrange of
        EngineSource \<Rightarrow>
          for_each (instanceAttribute mul cam pBatch objectID shaderSubpass collection)
            descID (subrange_mDescriptors subrange)
      | RenderTargetSource \<Rightarrow>
          thrown (RuntimeError ''render target source's Update Frequency should not be less than PerPass'')
      | MaterialSource \<Rightarrow> thrown (RuntimeError ''not supported yet''))"

definition instanceList ::
  "(Matrix4f \<Rightarrow> Matrix4f \<Rightarrow> Matrix4f) \<Rightarrow> CameraData \<Rightarrow> FlattenedObjects option \<Rightarrow> nat \<Rightarrow>
   ShaderSubpassData \<Rightarrow> Collection \<Rightarrow> unit \<Rightarrow> DescriptorList \<Rightarrow> unit recorded" where
  "instanceList mul cam pBatch objectID shaderSubpass collection u list =
     (if list_mRanges list = [] then thrown ExpectsViolation
      else if list_mCapacity list = 0 then thrown ExpectsViolation
      else
        and_then (record_calls [AllocateCircular (list_mCapacity list)] ()) (\<lambda>u.
        and_then
          (for_each
             (\<lambda>descID range.
                for_each (instanceSubrange mul cam pBatch objectID shaderSubpass collection)
                  descID (range_mSubranges range))
             0 (list_mRanges list)) (\<lambda>descID.
        record_calls
          [Cmd (SetGraphicsRootDescriptorTable (list_mSlot list)
                  (CircularGpuHandle (list_mCapacity list)))] ())))"

definition bindStoredTable :: "unit \<Rightarrow> DescriptorList \<Rightarrow> unit recorded" where
  "bindStoredTable u list =
     record_calls
       [Cmd (SetGraphicsRootDescriptorTable (list_mSlot list) (StoredGpuOffset (list_mGpuOffset list)))] ()"

definition instanceCollection ::
  "(Matrix4f \<Rightarrow> Matrix4f \<Rightarrow> Matrix4f) \<Rightarrow> CameraData \<Rightarrow> FlattenedObjects option \<Rightarrow> nat \<Rightarrow>
   ShaderSubpassData \<Rightarrow> unit \<Rightarrow> Collection \<Rightarrow> unit recorded" where
  "instanceCollection mul cam pBatch objectID shaderSubpass u collection =
     (if mType (collection_mIndex collection) \<noteq> Table then thrown ExpectsViolation
      else
        case mPersistency (collection_mIndex collection) of
          Persistent \<Rightarrow>
            and_then (for_each bindStoredTable () (collection_mResourceViewLists collection)) (\<lambda>u.
            for_each bindStoredTable () (collection_mSamplerLists collection))
        | Dynamic \<Rightarrow>
            if \<not> update_rank (mUpdate (collection_mIndex collection)) < update_rank PerPass
            then thrown ExpectsViolation
            else
              and_then
                (for_each (instanceList mul cam pBatch objectID shaderSubpass collection) ()
                   (collection_mResourceViewLists collection)) (\<lambda>u.
              for_each (\<lambda>u list. thrown (RuntimeError ''not supported yet'')) ()
                (collection_mSamplerLists collection)))"

definition buildDynamicDescriptors ::
  "(Matrix4f \<Rightarrow> Matrix4f \<Rightarrow> Matrix4f) \<Rightarrow> ShaderSubpassData \<Rightarrow> MaterialSubpassData \<Rightarrow> CameraData \<Rightarrow>
   FlattenedObjects option \<Rightarrow> nat \<Rightarrow> unit recorded" where
  "buildDynamicDescriptors mul shaderSubpass subpassData cam pBatch objectID =
     for_each (instanceCollection mul cam pBatch objectID shaderSubpass) () (mCollections subpassData)"

subsection \<open>renderFrame: draws\<close>

text \<open>
  \<open>prevTopology\<close> and \<open>pPrevPSO\<close>, the two variables a subpass keeps across its draws.
\<close>

type_synonym draw_state = "uint32_t \<times> nat"

definition D3D_PRIMITIVE_TOPOLOGY_TRIANGLELIST :: uint32_t where
  "D3D_PRIMITIVE_TOPOLOGY_TRIANGLELIST = 4"

definition setTopology :: "uint32_t \<Rightarrow> draw_state \<Rightarrow> draw_state recorded" where
  "setTopology primTopology st =
     (if primTopology \<noteq> fst st
      then record_calls [Cmd (IASetPrimitiveTopology primTopology)] (primTopology, snd st)
      else finished st)"

text \<open>
  The body of the loop over the shader subpasses of a material. The source has it twice,
  for the full-screen triangle and for the object batch; the two differ in the index into
  \<^verbatim>\<open>mVertexLayoutIndex\<close>, in the batch and object passed on, and in the draw call, which
  are the parameters \<open>layoutIndex\<close>, \<open>pBatch\<close>, \<open>objectID\<close> and \<open>draw\<close> here. The state
  is the draw state and the loop's own \<^verbatim>\<open>subpassID\<close>.
\<close>

definition drawShaderSubpass ::
  "(Matrix4f \<Rightarrow> Matrix4f \<Rightarrow> Matrix4f) \<Rightarrow> CameraData \<Rightarrow> FlattenedObjects option \<Rightarrow> nat \<Rightarrow>
   nat \<Rightarrow> command \<Rightarrow> (error + MaterialSubpassData list) \<Rightarrow>
   draw_state \<times> nat \<Rightarrow> ShaderSubpassData \<Rightarrow> (draw_state \<times> nat) recorded" where
  "drawShaderSubpass mul cam pBatch objectID layoutIndex draw materialSubpasses s shaderSubpass =
     (case s of (st, subpassID) \<Rightarrow>
        case at (mVertexLayoutIndex shaderSubpass) layoutIndex of
          Inl e \<Rightarrow> thrown e
        | Inr layoutID \<Rightarrow>
           (case at (mStates shaderSubpass) layoutID of
              Inl e \<Rightarrow> thrown e
            | Inr pso \<Rightarrow>
                and_then
                  (if snd st \<noteq> pso then record_calls [Cmd (SetPipelineState pso)] (fst st, pso)
                   else finished st) (\<lambda>st'.
                case materialSubpasses of
                  Inl e \<Rightarrow> thrown e
                | Inr subpasses \<Rightarrow>
                   (case at subpasses subpassID of
                      Inl e \<Rightarrow> thrown e
                    | Inr subpassData \<Rightarrow>
                        and_then
                          (buildDynamicDescriptors mul shaderSubpass subpassData cam pBatch objectID) (\<lambda>u.
                        record_calls [Cmd draw] (st', subpassID + 1))))))"

definition drawFullScreenTriangle ::
  "(Matrix4f \<Rightarrow> Matrix4f \<Rightarrow> Matrix4f) \<Rightarrow> CameraData \<Rightarrow>
   uint32_t \<Rightarrow> uint32_t \<Rightarrow> uint32_t \<Rightarrow> uint32_t \<Rightarrow> draw_state \<Rightarrow> DrawCall \<Rightarrow> draw_state recorded" where
  "drawFullScreenTriangle mul cam solutionID pipelineID passID subpassID st dc =
     and_then (setTopology D3D_PRIMITIVE_TOPOLOGY_TRIANGLELIST st) (\<lambda>st1.
     and_then (record_calls [Cmd (IASetVertexBuffers []), Cmd (IASetIndexBuffer None)] ()) (\<lambda>u.
     case getSubpassData (dc_mMaterial dc) solutionID pipelineID passID subpassID of
       Inl e \<Rightarrow> thrown e
     | Inr queue \<Rightarrow>
        (case queue_subpasses queue of
           Inl e \<Rightarrow> thrown e
         | Inr shaderSubpasses \<Rightarrow>
             and_then
               (for_each
                  (drawShaderSubpass mul cam None 0 0 (DrawInstanced 3 1 0 0)
                     (queue_materialSubpasses queue))
                  (st1, 0) shaderSubpasses) (\<lambda>s. finished (fst s)))))"

definition drawCallObject ::
  "(Matrix4f \<Rightarrow> Matrix4f \<Rightarrow> Matrix4f) \<Rightarrow> CameraData \<Rightarrow>
   uint32_t \<Rightarrow> uint32_t \<Rightarrow> uint32_t \<Rightarrow> uint32_t \<Rightarrow> Content \<Rightarrow> draw_state \<Rightarrow> ObjectID \<Rightarrow>
   draw_state recorded" where
  "drawCallObject mul cam solutionID pipelineID passID subpassID content st object =
     (case at (mDrawCalls content) (object_mIndex object) of
        Inl e \<Rightarrow> thrown e
      | Inr dc \<Rightarrow>
         (case dc_mType dc of
            FullScreenTriangle \<Rightarrow>
              drawFullScreenTriangle mul cam solutionID pipelineID passID subpassID st dc
          | DrawCall_monostate \<Rightarrow> thrown (RuntimeError ''mesh drawcall not supported'')))"

text \<open>
  One material of a mesh renderer, once \<^verbatim>\<open>materialID < mesh.mSubMeshes.size()\<close> has been
  checked: binds the mesh and draws the submesh \<^verbatim>\<open>materialID\<close> once for every shader
  subpass of the material.
\<close>

definition drawMaterial ::
  "(Matrix4f \<Rightarrow> Matrix4f \<Rightarrow> Matrix4f) \<Rightarrow> CameraData \<Rightarrow>
   uint32_t \<Rightarrow> uint32_t \<Rightarrow> uint32_t \<Rightarrow> uint32_t \<Rightarrow> FlattenedObjects \<Rightarrow> nat \<Rightarrow> Mesh \<Rightarrow>
   nat \<Rightarrow> draw_state \<Rightarrow> Material \<Rightarrow> draw_state recorded" where
  "drawMaterial mul cam solutionID pipelineID passID subpassID batch objectID mesh materialID st material =
     (case at (mSubMeshes mesh) materialID of
        Inl e \<Rightarrow> thrown e
      | Inr submesh \<Rightarrow>
         (case getSubpassData material solutionID pipelineID passID subpassID of
            Inl e \<Rightarrow> thrown e
          | Inr queue \<Rightarrow>
              and_then (setTopology (mPrimitiveTopology mesh) st) (\<lambda>st1.
              and_then
                (record_calls
                   [Cmd (IASetVertexBuffers (mVertexBufferViews mesh)),
                    Cmd (IASetIndexBuffer
                           (if mIndexBufferLocation mesh \<noteq> 0 then Some (mIndexBufferLocation mesh)
                            else None))] ()) (\<lambda>u.
              case queue_subpasses queue of
                Inl e \<Rightarrow> thrown e
              | Inr shaderSubpasses \<Rightarrow>
                  and_then
                    (for_each
                       (drawShaderSubpass mul cam (Some batch) objectID (mLayoutID mesh)
                          (DrawIndexedInstanced (mIndexCount submesh) 1 (mIndexOffset submesh) 0 0)
                          (queue_materialSubpasses queue))
                       (st1, 0) shaderSubpasses) (\<lambda>s. finished (fst s))))))"

text \<open>
  The loop over \<^verbatim>\<open>renderer.mMaterials\<close> with its counter \<^verbatim>\<open>materialID\<close>: it leaves with
  \<^verbatim>\<open>break\<close> as soon as \<^verbatim>\<open>materialID >= mesh.mSubMeshes.size()\<close>. \<open>step\<close> is the rest of the
  body, \<open>n\<close> the number of submeshes.
\<close>

fun materialsLoop ::
  "(nat \<Rightarrow> draw_state \<Rightarrow> Material \<Rightarrow> draw_state recorded) \<Rightarrow> nat \<Rightarrow> nat \<Rightarrow> draw_state \<Rightarrow>
   Material list \<Rightarrow> draw_state recorded" where
  "materialsLoop step n materialID st [] = ([], Inr st)"
| "materialsLoop step n materialID st (material # materials) =
     (if materialID \<ge> n then ([], Inr st)
      else
        case step materialID st material of
          (es, Inl e) \<Rightarrow> (es, Inl e)
        | (es, Inr st') \<Rightarrow>
           (case materialsLoop step n (materialID + 1) st' materials of
              (es', r) \<Rightarrow> (es @ es', r)))"

definition drawMeshRenderer ::
  "(Matrix4f \<Rightarrow> Matrix4f \<Rightarrow> Matrix4f) \<Rightarrow> CameraData \<Rightarrow>
   uint32_t \<Rightarrow> uint32_t \<Rightarrow> uint32_t \<Rightarrow> uint32_t \<Rightarrow> FlattenedObjects \<Rightarrow>
   draw_state \<Rightarrow> nat \<times> MeshRenderer \<Rightarrow> draw_state recorded" where
  "drawMeshRenderer mul cam solutionID pipelineID passID subpassID batch st r =
     (case r of (objectID, renderer) \<Rightarrow>
        materialsLoop
          (drawMaterial mul cam solutionID pipelineID passID subpassID batch objectID (mMesh renderer))
          (length (mSubMeshes (mMesh renderer))) 0 st (mMaterials renderer))"

definition drawObjectBatch ::
  "(Matrix4f \<Rightarrow> Matrix4f \<Rightarrow> Matrix4f) \<Rightarrow> CameraData \<Rightarrow>
   uint32_t \<Rightarrow> uint32_t \<Rightarrow> uint32_t \<Rightarrow> uint32_t \<Rightarrow> Content \<Rightarrow> draw_state \<Rightarrow> ObjectID \<Rightarrow>
   draw_state recorded" where
  "drawObjectBatch mul cam solutionID pipelineID passID subpassID content st object =
     (case at (mFlattenedObjects content) (object_mIndex object) of
        Inl e \<Rightarrow> thrown e
      | Inr batch \<Rightarrow>
          if length (mWorldTransforms batch) \<noteq> length (mMeshRenderers batch) then thrown ExpectsViolation
          else if length (mWorldTransformInvs batch) \<noteq> length (mMeshRenderers batch)
          then thrown ExpectsViolation
          else
            for_each (drawMeshRenderer mul cam solutionID pipelineID passID subpassID batch) st
              (enumerate 0 (mMeshRenderers batch)))"

definition drawObject ::
  "(Matrix4f \<Rightarrow> Matrix4f \<Rightarrow> Matrix4f) \<Rightarrow> CameraData \<Rightarrow>
   uint32_t \<Rightarrow> uint32_t \<Rightarrow> uint32_t \<Rightarrow> uint32_t \<Rightarrow> Content \<Rightarrow> draw_state \<Rightarrow> ObjectID \<Rightarrow>
   draw_state recorded" where
  "drawObject mul cam solutionID pipelineID passID subpassID content st object =
     (case object_mType object of
        Tag_DrawCall \<Rightarrow> drawCallObject mul cam solutionID pipelineID passID subpassID content st object
      | Tag_ObjectBatch \<Rightarrow>
          drawObjectBatch mul cam solutionID pipelineID passID subpassID content st object)"

definition drawContent ::
  "(Matrix4f \<Rightarrow> Matrix4f \<Rightarrow> Matrix4f) \<Rightarrow> CameraData \<Rightarrow>
   uint32_t \<Rightarrow> uint32_t \<Rightarrow> uint32_t \<Rightarrow> uint32_t \<Rightarrow> draw_state \<Rightarrow> Content \<Rightarrow> draw_state recorded" where
  "drawContent mul cam solutionID pipelineID passID subpassID st content =
     for_each (drawObject mul cam solutionID pipelineID passID subpassID content) st (mIDs content)"

subsection \<open>renderFrame: the PerPass resolver\<close>

definition passAttribute ::
  "CameraData \<Rightarrow> Subpass \<Rightarrow> Collection \<Rightarrow> nat \<Rightarrow> Attribute \<Rightarrow> nat recorded" where
  "passAttribute cam subpass collection descID attr =
     and_then
       (case attr_mDataType attr of
          Descriptor_ConstantBuffer \<Rightarrow>
            resolveConstantBuffer (writePassConstant cam)
              (mConstantBuffers subpass) (collection_mIndex collection) descID
        | Descriptor_MainTex \<Rightarrow> thrown (RuntimeError ''not supported yet'')
        | Descriptor_PointSampler \<Rightarrow> thrown (RuntimeError ''not supported yet'')
        | Descriptor_LinearSampler \<Rightarrow> thrown (RuntimeError ''not supported yet'')
        | Descriptor_monostate \<Rightarrow> thrown (RuntimeError ''not supported yet''))
       (\<lambda>u. finished (descID + 1))"

definition passSubrange ::
  "CameraData \<Rightarrow> Subpass \<Rightarrow> Collection \<Rightarrow> nat \<Rightarrow> Subrange \<Rightarrow> nat recorded" where
  "passSubrange cam subpass collection descID subrange =
     (case subrange_mSource subrange of
        EngineSource \<Rightarrow>
          for_each (passAttribute cam subpass collection) descID (subrange_mDescriptors subrange)
      | RenderTargetSource \<Rightarrow>
          thrown (RuntimeError ''dynamic descriptor cannot be render target source'')
      | MaterialSource \<Rightarrow> thrown (RuntimeError ''not supported yet''))"

definition passList ::
  "CameraData \<Rightarrow> Subpass \<Rightarrow> Collection \<Rightarrow> unit \<Rightarrow> DescriptorList \<Rightarrow> unit recorded" where
  "passList cam subpass collection u list =
     (if mType (collection_mIndex collection) \<noteq> Table then thrown ExpectsViolation
      else if list_mCapacity list = 0 then thrown ExpectsViolation
      else
        and_then (record_calls [AllocateCircular (list_mCapacity list)] ()) (\<lambda>u.
        and_then
          (for_each
             (\<lambda>descID range.
                for_each (passSubrange cam subpass collection) descID (range_mSubranges range))
             0 (list_mRanges list)) (\<lambda>descID.
        record_calls
          [Cmd (SetGraphicsRootDescriptorTable (list_mSlot list)
                  (CircularGpuHandle (list_mCapacity list)))] ())))"

definition passStoredList :: "Collection \<Rightarrow> unit \<Rightarrow> DescriptorList \<Rightarrow> unit recorded" where
  "passStoredList collection u list =
     (if mType (collection_mIndex collection) \<noteq> Table then thrown ExpectsViolation
      else if list_mCapacity list = 0 then thrown ExpectsViolation
      else bindStoredTable () list)"

definition passCollection :: "CameraData \<Rightarrow> Subpass \<Rightarrow> unit \<Rightarrow> Collection \<Rightarrow> unit recorded" where
  "passCollection cam subpass u collection =
     (if mUpdate (collection_mIndex collection) \<noteq> PerPass then finished ()
      else if mType (collection_mIndex collection) = SSV then finished ()
      else
        and_then
          (case mPersistency (collection_mIndex collection) of
             Persistent \<Rightarrow>
               for_each (passStoredList collection) () (collection_mResourceViewLists collection)
           | Dynamic \<Rightarrow>
               for_each (passList cam subpass collection) () (collection_mResourceViewLists collection))
          (\<lambda>u.
        for_each (\<lambda>u list. thrown (RuntimeError ''not supported yet'')) ()
          (collection_mSamplerLists collection)))"

subsection \<open>renderFrame: passes and subpasses\<close>

text \<open>
  The render-target view of an output attachment, as the index given to
  \<^verbatim>\<open>mRTVs.getCpuHandle\<close>.
\<close>

definition resolveRTV :: "FrameContext \<Rightarrow> uint32_t \<Rightarrow> uint32_t" where
  "resolveRTV pContext handle =
     (if handle = 0 then mBackBufferIndex pContext
      else if handle = mBackBufferCount pContext
      then mBackBufferIndex pContext + mBackBufferCount pContext
      else handle)"

definition outputAttachment ::
  "FrameContext \<Rightarrow> uint32_t list \<Rightarrow> Attachment \<Rightarrow> uint32_t list recorded" where
  "outputAttachment pContext rtvs rt =
     (let rtv = resolveRTV pContext (att_mHandle rt) in
      case att_mLoadOp rt of
        ClearColor c \<Rightarrow> record_calls [Cmd (ClearRenderTargetView rtv c)] (rtvs @ [rtv])
      | ClearDepthStencil d s dv sv \<Rightarrow>
          thrown (RuntimeError ''RTV should not use clear depth stencil'')
      | OtherLoadOp \<Rightarrow> finished (rtvs @ [rtv]))"

definition depthStencilAttachment :: "Attachment option \<Rightarrow> unit recorded" where
  "depthStencilAttachment a =
     (case a of
        None \<Rightarrow> finished ()
      | Some ds \<Rightarrow>
         (case att_mLoadOp ds of
            ClearColor c \<Rightarrow> thrown (RuntimeError ''DSV should not use clear color'')
          | ClearDepthStencil d s dv sv \<Rightarrow>
              record_calls [Cmd (ClearDepthStencilView (att_mHandle ds) d s dv sv)] ()
          | OtherLoadOp \<Rightarrow> finished ()))"

definition preSubpass :: "FrameContext \<Rightarrow> Subpass \<Rightarrow> uint32_t list recorded" where
  "preSubpass pContext subpass =
     and_then (for_each (outputAttachment pContext) [] (mOutputAttachments subpass)) (\<lambda>rtvs.
     and_then (depthStencilAttachment (mDepthStencilAttachment subpass)) (\<lambda>u.
     if rtvs \<noteq> [] \<or> mDepthStencilAttachment subpass \<noteq> None
     then record_calls
            [Cmd (OMSetRenderTargets rtvs (map_option att_mHandle (mDepthStencilAttachment subpass)))]
            rtvs
     else finished rtvs))"

definition renderQueue ::
  "(Matrix4f \<Rightarrow> Matrix4f \<Rightarrow> Matrix4f) \<Rightarrow> CameraData \<Rightarrow>
   uint32_t \<Rightarrow> uint32_t \<Rightarrow> uint32_t \<Rightarrow> uint32_t \<Rightarrow> Subpass \<Rightarrow> draw_state \<Rightarrow> RenderQueue \<Rightarrow>
   draw_state recorded" where
  "renderQueue mul cam solutionID pipelineID passID subpassID subpass st queue =
     and_then (record_calls [Cmd (SetGraphicsRootSignature (mRootSignature subpass))] ()) (\<lambda>u.
     and_then (for_each (passCollection cam subpass) () (mDescriptors subpass)) (\<lambda>u.
     for_each (drawContent mul cam solutionID pipelineID passID subpassID) st (mContents queue)))"

definition postTransition ::
  "FrameContext \<Rightarrow> barrier list \<Rightarrow> ViewTransition \<Rightarrow> barrier list recorded" where
  "postTransition pContext bs t =
     (case subscript (mFramebuffers (mRenderWorks pContext))
             (if t_mFramebuffer t = 0 then unat (mBackBufferIndex pContext)
              else unat (t_mFramebuffer t)) of
        Inl e \<Rightarrow> thrown e
      | Inr pResource \<Rightarrow> finished (bs @ [Transition pResource (t_mSource t) (t_mTarget t)]))"

definition postSubpass :: "FrameContext \<Rightarrow> Subpass \<Rightarrow> unit recorded" where
  "postSubpass pContext subpass =
     (if mPostViewTransitions subpass = [] then finished ()
      else
        and_then (for_each (postTransition pContext) [] (mPostViewTransitions subpass)) (\<lambda>bs.
        record_calls [Cmd (ResourceBarrier bs)] ()))"

definition renderSubpass ::
  "(Matrix4f \<Rightarrow> Matrix4f \<Rightarrow> Matrix4f) \<Rightarrow> CameraData \<Rightarrow> FrameContext \<Rightarrow> uint32_t \<Rightarrow>
   unit \<Rightarrow> nat \<times> Subpass \<Rightarrow> unit recorded" where
  "renderSubpass mul cam pContext passID u s =
     (case s of (subpassID, subpass) \<Rightarrow>
        and_then (preSubpass pContext subpass) (\<lambda>rtvs.
        and_then
          (for_each
             (renderQueue mul cam (mSolutionID pContext) (mPipelineID pContext) passID
                (word_of_nat subpassID) subpass)
             (0, 0) (mOrderedRenderQueue subpass)) (\<lambda>st.
        postSubpass pContext subpass)))"

definition renderPass ::
  "(Matrix4f \<Rightarrow> Matrix4f \<Rightarrow> Matrix4f) \<Rightarrow> CameraData \<Rightarrow> FrameContext \<Rightarrow>
   unit \<Rightarrow> nat \<times> Pass \<Rightarrow> unit recorded" where
  "renderPass mul cam pContext u p =
     (case p of (passID, pass) \<Rightarrow>
        and_then
          (if mViewports pass \<noteq> []
           then (if length (mViewports pass) \<noteq> 1 then thrown ExpectsViolation
                 else record_calls [Cmd (RSSetViewports (mViewports pass))] ())
           else finished ()) (\<lambda>u.
        and_then
          (if mScissorRects pass \<noteq> []
           then (if length (mScissorRects pass) \<noteq> 1 then thrown ExpectsViolation
                 else record_calls [Cmd (RSSetScissorRects (mScissorRects pass))] ())
           else finished ()) (\<lambda>u.
        for_each (renderSubpass mul cam pContext (word_of_nat passID)) ()
          (enumerate 0 (mGraphicsSubpasses pass)))))"

text \<open>
  \<^verbatim>\<open>renderFrame\<close>. The camera is the constant one the source sets up in every subpass; its
  two matrices and the matrix product are the parameters \<open>cam\<close> and \<open>mul\<close>.
\<close>

definition renderFrame ::
  "(Matrix4f \<Rightarrow> Matrix4f \<Rightarrow> Matrix4f) \<Rightarrow> CameraData \<Rightarrow> FrameContext \<Rightarrow> unit recorded" where
  "renderFrame mul cam pContext =
     (case subscript (mFramebuffers (mRenderWorks pContext)) (unat (mBackBufferIndex pContext)) of
        Inl e \<Rightarrow> thrown e
      | Inr backBuffer \<Rightarrow>
          and_then
            (record_calls
               [Cmd (ResourceBarrier
                       [Transition backBuffer D3D12_RESOURCE_STATE_PRESENT
                          D3D12_RESOURCE_STATE_RENDER_TARGET])] ()) (\<lambda>u.
          case subscript (mPipelines (mRenderSolution pContext)) (unat (mPipelineID pContext)) of
            Inl e \<Rightarrow> thrown e
          | Inr pipeline \<Rightarrow>
              and_then (record_calls [Cmd SetDescriptorHeaps] ()) (\<lambda>u.
              and_then (for_each (renderPass mul cam pContext) () (enumerate 0 (mPasses pipeline))) (\<lambda>u.
              record_calls [Cmd Close, ExecuteCommandLists] ()))))"

subsection \<open>The shader asset builder: one stage of buildShaderData\<close>

datatype ShaderStage = PS | GS | DS | HS | VS | OtherStage

datatype Semantic =
    BINORMAL | BLENDINDICES | BLENDWEIGHT | NORMAL | POSITIONT | PSIZE | TANGENT | TEXCOORD
  | SV_Position | OtherSemantic

record NodeInput =
  input_mSemantic :: Semantic
  input_mName :: string

record ShaderSubpass =
  mPS :: string
  mVS :: string
  mSemantics :: "Semantic \<Rightarrow> string list"

text \<open>
  The text of a stage: the attributes, a newline when they are not empty, the modules and
  the shader. The three generators belong to the HLSL generator and are parameters.
\<close>

definition stageText :: "string \<Rightarrow> string \<Rightarrow> string \<Rightarrow> string" where
  "stageText attributes modules shader =
     (if attributes \<noteq> [] then attributes @ [CHR 0x0A] else attributes) @ modules @ shader"

definition isVertexType :: "Semantic \<Rightarrow> bool" where
  "isVertexType s = (s \<noteq> OtherSemantic)"

definition addInput :: "ShaderSubpass \<Rightarrow> string \<times> NodeInput \<Rightarrow> ShaderSubpass" where
  "addInput subpassData i =
     (case i of (name, input) \<Rightarrow>
        if isVertexType (input_mSemantic input)
        then subpassData\<lparr>mSemantics := (mSemantics subpassData)
               (input_mSemantic input := mSemantics subpassData (input_mSemantic input) @ [input_mName input])\<rparr>
        else subpassData)"

text \<open>
  The visitor of \<^verbatim>\<open>stageID\<close> in \<^verbatim>\<open>buildShaderData\<close>. \<open>compileShader\<close> (the shader compiler)
  is a parameter: from the buffer, the profile, the name and the text it gives the new
  buffer or fails. \<open>inputs\<close> is \<^verbatim>\<open>mShaders.at(VS).mGraph.getNodeInputsWithoutSource()\<close>.
\<close>

definition buildStage ::
  "(string \<Rightarrow> string \<Rightarrow> string \<Rightarrow> string \<Rightarrow> error + string) \<Rightarrow> bool \<Rightarrow> string \<Rightarrow>
   (error + (string \<times> NodeInput) list) \<Rightarrow> ShaderSubpass \<Rightarrow> ShaderStage \<Rightarrow> string \<Rightarrow>
   error + ShaderSubpass" where
  "buildStage compileShader bCompile shaderName inputs subpassData stageID text =
     (case stageID of
        PS \<Rightarrow>
          if bCompile
          then (case compileShader (mPS subpassData) ''ps_5_0'' (shaderName @ ''.vs'') text of
                  Inl e \<Rightarrow> Inl e
                | Inr compiled \<Rightarrow> Inr (subpassData\<lparr>mPS := compiled\<rparr>))
          else if mPS subpassData \<noteq> [] then Inl ExpectsViolation
          else Inr (subpassData\<lparr>mPS := mPS subpassData @ text\<rparr>)
      | GS \<Rightarrow> Inl (InvalidArgument ''shader not supported'')
      | DS \<Rightarrow> Inl (InvalidArgument ''shader not supported'')
      | HS \<Rightarrow> Inl (InvalidArgument ''shader not supported'')
      | VS \<Rightarrow>
         (case inputs of
            Inl e \<Rightarrow> Inl e
          | Inr ins \<Rightarrow>
             (let subpassData' = foldl addInput subpassData ins in
              if bCompile
              then (case compileShader (mVS subpassData') ''vs_5_0'' (shaderName @ ''.vs'') text of
                      Inl e \<Rightarrow> Inl e
                    | Inr compiled \<Rightarrow> Inr (subpassData'\<lparr>mVS := compiled\<rparr>))
              else if mVS subpassData' \<noteq> [] then Inl ExpectsViolation
              else Inr (subpassData'\<lparr>mVS := mVS subpassData' @ text\<rparr>)))
      | OtherStage \<Rightarrow> Inl (RuntimeError ''unknown shader''))"

text \<open>
  The loop over \<^verbatim>\<open>subpass.mProgram.mShaders\<close>: every stage gets its text generated and is
  then visited.
\<close>

definition buildStages ::
  "(string \<Rightarrow> string \<Rightarrow> string \<Rightarrow> string \<Rightarrow> error + string) \<Rightarrow> bool \<Rightarrow> string \<Rightarrow>
   (error + (string \<times> NodeInput) list) \<Rightarrow> (ShaderStage \<Rightarrow> string) \<Rightarrow> string \<Rightarrow>
   (ShaderStage \<Rightarrow> string) \<Rightarrow> ShaderSubpass \<Rightarrow> ShaderStage list \<Rightarrow> error + ShaderSubpass" where
  "buildStages compileShader bCompile shaderName inputs generateAttributes generateModules
     generateShader subpassData stages =
     fold_error
       (\<lambda>sd stageID.
          buildStage compileShader bCompile shaderName inputs sd stageID
            (stageText (generateAttributes stageID) generateModules (generateShader stageID)))
       subpassData stages"

subsection \<open>Statements about initPipeline\<close>

text \<open>
  The barriers \<^verbatim>\<open>initPipeline\<close> has recorded when it returns; the render targets that need
  one (declared initial state neither Common nor RenderTarget); the resource of the
  \<open>k\<close>-th render target. \<open>code_initBarriers\<close> lists the transitions from RenderTarget to the
  declared initial state, in declared order. \<open>spec_initBarriers\<close> follows the words of the
  specification instead: from the declared initial state to RenderTarget.
\<close>

definition initPipeline_barriers :: "FrameQueue \<Rightarrow> SwapChain \<Rightarrow> gpu \<Rightarrow> barrier list option" where
  "initPipeline_barriers q sc g =
     (case initPipeline q sc g of
        Returned (q', g', log) \<Rightarrow> Some (barriers_of log)
      | Raised e \<Rightarrow> None
      | Blocked qb log \<Rightarrow> None)"

definition needs_transition :: "nat \<times> RESOURCE_STATES \<Rightarrow> bool" where
  "needs_transition ks =
     (snd ks \<noteq> RESOURCE_STATE_COMMON \<and> snd ks \<noteq> RESOURCE_STATE_RENDER_TARGET)"

definition rtv_resource :: "SwapChain \<Rightarrow> nat \<Rightarrow> nat" where
  "rtv_resource sc k =
     mFramebuffers (sc_mRenderGraph sc) ! unat (mRTVSources (sc_currentSolution sc) ! k)"

definition spec_initBarriers :: "SwapChain \<Rightarrow> RESOURCE_STATES list \<Rightarrow> barrier list" where
  "spec_initBarriers sc states =
     map (\<lambda>ks. Transition (rtv_resource sc (fst ks)) (snd ks) RESOURCE_STATE_RENDER_TARGET)
       (filter needs_transition (enumerate 0 states))"

definition code_initBarriers :: "SwapChain \<Rightarrow> nat \<Rightarrow> RESOURCE_STATES list \<Rightarrow> barrier list" where
  "code_initBarriers sc k states =
     map (\<lambda>ks. Transition (rtv_resource sc (fst ks)) RESOURCE_STATE_RENDER_TARGET (snd ks))
       (filter needs_transition (enumerate k states))"

subsection \<open>Statements about the resolvers and the draws\<close>

text \<open>
  The constant buffers whose index equals a collection's, in declared order; the bytes a
  field contributes to a PerPass payload; the fields that are legal at PerPass scope only
  and those that need an object of a batch.
\<close>

definition matches :: "DescriptorIndex \<Rightarrow> ConstantBuffer list \<Rightarrow> ConstantBuffer list" where
  "matches index cbs = filter (\<lambda>cb. cb_mIndex cb = index) cbs"


definition per_pass_only :: "Constant \<Rightarrow> bool" where
  "per_pass_only c = (constant_mDataType c = Data_Proj \<or> constant_mDataType c = Data_View)"

definition per_object_only :: "Constant \<Rightarrow> bool" where
  "per_object_only c = (constant_mDataType c = Data_WorldView \<or> constant_mDataType c = Data_WorldInvT)"

text \<open>
  The \<^verbatim>\<open>DrawIndexedInstanced\<close> commands among recorded calls. \<open>shaderSubpassCount\<close> is the
  number of shader subpasses \<^verbatim>\<open>getSubpassData\<close> gives for a material (0 when a look-up
  throws); \<open>material_draws\<close> is one draw of submesh \<open>materialID\<close> for each of them;
  \<open>renderer_draws\<close> are those draws for the materials of a renderer whose index is below
  the number of submeshes, in order.
\<close>

definition is_indexed_draw :: "command \<Rightarrow> bool" where
  "is_indexed_draw c = (case c of DrawIndexedInstanced n i s b t \<Rightarrow> True | _ \<Rightarrow> False)"

definition indexed_draws :: "event list \<Rightarrow> command list" where
  "indexed_draws es = filter is_indexed_draw (commands es)"

definition shaderSubpassCount ::
  "uint32_t \<Rightarrow> uint32_t \<Rightarrow> uint32_t \<Rightarrow> uint32_t \<Rightarrow> Material \<Rightarrow> nat" where
  "shaderSubpassCount solutionID pipelineID passID subpassID material =
     (case getSubpassData material solutionID pipelineID passID subpassID of
        Inl e \<Rightarrow> 0
      | Inr queue \<Rightarrow> (case queue_subpasses queue of Inl e \<Rightarrow> 0 | Inr subpasses \<Rightarrow> length subpasses))"

definition material_draws ::
  "uint32_t \<Rightarrow> uint32_t \<Rightarrow> uint32_t \<Rightarrow> uint32_t \<Rightarrow> Mesh \<Rightarrow> nat \<times> Material \<Rightarrow> command list" where
  "material_draws solutionID pipelineID passID subpassID mesh m =
     replicate (shaderSubpassCount solutionID pipelineID passID subpassID (snd m))
       (DrawIndexedInstanced (mIndexCount (mSubMeshes mesh ! fst m)) 1
          (mIndexOffset (mSubMeshes mesh ! fst m)) 0 0)"

definition renderer_draws ::
  "uint32_t \<Rightarrow> uint32_t \<Rightarrow> uint32_t \<Rightarrow> uint32_t \<Rightarrow> MeshRenderer \<Rightarrow> command list" where
  "renderer_draws solutionID pipelineID passID subpassID renderer =
     concat (map (material_draws solutionID pipelineID passID subpassID (mMesh renderer))
       (take (length (mSubMeshes (mMesh renderer))) (enumerate 0 (mMaterials renderer))))"

subsection \<open>Concrete inputs\<close>

text \<open>
  A render graph with three framebuffers and two back buffers, a solution with one
  pipeline, a swap chain on them, and a frame queue of two slots whose contexts carry the
  fence values 5 and 6 of two earlier frames.
\<close>

definition example_works :: RenderWorks where
  "example_works = \<lparr>mFramebuffers = [100, 101, 102], mNumBackBuffers = 2\<rparr>"

definition example_solution :: RenderSolution where
  "example_solution = \<lparr>mPipelines = [\<lparr>mPasses = [], mRTVInitialStates = [4, 128, 0]\<rparr>], mRTVSources = [0, 1, 2]\<rparr>"

definition example_sc :: SwapChain where
  "example_sc = \<lparr>sc_mSwapChain = True, sc_GetCurrentBackBufferIndex = 1,
     sc_mRenderGraph = example_works, sc_currentSolution = example_solution,
     sc_getSolutionID = 0, sc_getPipelineID = 0\<rparr>"

definition example_context :: FrameContext where
  "example_context = \<lparr>mFrameFenceId = 0, mBackBufferIndex = 0, mBackBufferCount = 0,
     mRenderSolution = example_solution, mRenderWorks = example_works,
     mSolutionID = 0, mPipelineID = 0\<rparr>"

definition example_queue :: FrameQueue where
  "example_queue = \<lparr>mNextFrameFence = 7, mNextFrameIndex = 0,
     mFrames = [example_context\<lparr>mFrameFenceId := 5\<rparr>, example_context\<lparr>mFrameFenceId := 6\<rparr>]\<rparr>"

definition idle :: gpu where "idle = \<lparr>completed = 4, pending = []\<rparr>"

definition busy :: gpu where "busy = \<lparr>completed = 4, pending = [5, 6]\<rparr>"

definition idle7 :: gpu where "idle7 = \<lparr>completed = 7, pending = []\<rparr>"


text \<open>
  A frame context as \<^verbatim>\<open>beginFrame\<close> leaves it (back buffer 1 of 2), a camera and a
  stand-in for the matrix product.
\<close>

definition example_frame :: FrameContext where
  "example_frame = example_context\<lparr>mFrameFenceId := 7, mBackBufferIndex := 1, mBackBufferCount := 2\<rparr>"

definition example_cam :: CameraData where
  "example_cam = \<lparr>mView = (\<lambda>i. word_of_nat (i + 1)), mProj = (\<lambda>i. word_of_nat (256 * i))\<rparr>"

definition example_mul :: "Matrix4f \<Rightarrow> Matrix4f \<Rightarrow> Matrix4f" where
  "example_mul a b = (\<lambda>i. a i + b i)"

text \<open>
  A PerPass collection with one dynamic constant-buffer descriptor, and a subpass that
  declares two constant buffers with that collection's index.
\<close>

definition example_index :: DescriptorIndex where
  "example_index = \<lparr>mUpdate = PerPass, mType = Table, mPersistency = Dynamic\<rparr>"

definition example_view_cb :: ConstantBuffer where
  "example_view_cb = \<lparr>cb_mIndex = example_index, cb_mSize = 64,
     cb_mConstants = [\<lparr>constant_mSource = EngineSource, constant_mDataType = Data_View\<rparr>]\<rparr>"

definition example_proj_cb :: ConstantBuffer where
  "example_proj_cb = \<lparr>cb_mIndex = example_index, cb_mSize = 64,
     cb_mConstants = [\<lparr>constant_mSource = EngineSource, constant_mDataType = Data_Proj\<rparr>]\<rparr>"

definition example_cb_attribute :: Attribute where
  "example_cb_attribute = \<lparr>attr_mDataType = Descriptor_ConstantBuffer\<rparr>"

definition example_collection :: Collection where
  "example_collection = \<lparr>collection_mIndex = example_index,
     collection_mResourceViewLists =
       [\<lparr>list_mSlot = 0, list_mGpuOffset = 0, list_mCapacity = 1,
         list_mRanges = [\<lparr>range_mSubranges =
           [\<lparr>subrange_mSource = EngineSource, subrange_mDescriptors = [example_cb_attribute]\<rparr>]\<rparr>]\<rparr>],
     collection_mSamplerLists = []\<rparr>"

definition example_subpass :: Subpass where
  "example_subpass = \<lparr>mOutputAttachments = [\<lparr>att_mHandle = 0, att_mLoadOp = ClearColor [0, 0, 0, 0]\<rparr>],
     mDepthStencilAttachment = None, mOrderedRenderQueue = [], mRootSignature = 1,
     mDescriptors = [example_collection],
     mConstantBuffers = [example_view_cb, example_proj_cb],
     mPostViewTransitions = []\<rparr>"

text \<open>
  An object batch of one mesh renderer with three materials on a mesh of two submeshes;
  every material has \<open>n\<close> shader subpasses, each with one pre-built (persistent) descriptor
  table to bind.
\<close>

definition example_object_index :: DescriptorIndex where
  "example_object_index = \<lparr>mUpdate = PerBatch, mType = Table, mPersistency = Persistent\<rparr>"

definition example_world_cb :: ConstantBuffer where
  "example_world_cb = \<lparr>cb_mIndex = example_object_index, cb_mSize = 128,
     cb_mConstants = [\<lparr>constant_mSource = EngineSource, constant_mDataType = Data_WorldView\<rparr>,
                      \<lparr>constant_mSource = EngineSource, constant_mDataType = Data_WorldInvT\<rparr>]\<rparr>"

definition example_shader_subpass :: ShaderSubpassData where
  "example_shader_subpass = \<lparr>mVertexLayoutIndex = [0], mStates = [7],
     shader_mConstantBuffers = [example_world_cb]\<rparr>"

definition example_object_collection :: Collection where
  "example_object_collection = \<lparr>collection_mIndex = example_object_index,
     collection_mResourceViewLists =
       [\<lparr>list_mSlot = 1, list_mGpuOffset = 64, list_mCapacity = 1,
         list_mRanges = [\<lparr>range_mSubranges =
           [\<lparr>subrange_mSource = EngineSource,
             subrange_mDescriptors = [\<lparr>attr_mDataType = Descriptor_ConstantBuffer\<rparr>]\<rparr>]\<rparr>]\<rparr>],
     collection_mSamplerLists = []\<rparr>"

definition example_material :: "nat \<Rightarrow> Material" where
  "example_material n = \<lparr>getSubpassData = (\<lambda>solutionID pipelineID passID subpassID.
     Inr \<lparr>queue_subpasses = Inr (replicate n example_shader_subpass),
          queue_materialSubpasses = Inr (replicate n \<lparr>mCollections = [example_object_collection]\<rparr>)\<rparr>)\<rparr>"

definition example_mesh :: Mesh where
  "example_mesh = \<lparr>mSubMeshes = [\<lparr>mIndexCount = 36, mIndexOffset = 0\<rparr>,
                                \<lparr>mIndexCount = 12, mIndexOffset = 36\<rparr>],
     mPrimitiveTopology = 4, mVertexBufferViews = [1], mIndexBufferLocation = 4096, mLayoutID = 0\<rparr>"

definition example_renderer :: "nat \<Rightarrow> MeshRenderer" where
  "example_renderer n = \<lparr>mMaterials = [example_material n, example_material n, example_material n],
     mMesh = example_mesh\<rparr>"

definition example_batch :: "nat \<Rightarrow> FlattenedObjects" where
  "example_batch n = \<lparr>mWorldTransforms = [\<lambda>i. word_of_nat i], mWorldTransformInvs = [\<lambda>i. 1],
     mMeshRenderers = [example_renderer n]\<rparr>"

text \<open>A stand-in for the shader compiler, and a subpass whose pixel shader is already stored.\<close>

definition example_compileShader :: "string \<Rightarrow> string \<Rightarrow> string \<Rightarrow> string \<Rightarrow> error + string" where
  "example_compileShader buffer profile name text = Inr (profile @ '':'' @ text)"

definition example_shader_data :: ShaderSubpass where
  "example_shader_data = \<lparr>mPS = ''float4 main() : SV_Target'', mVS = [], mSemantics = (\<lambda>s. [])\<rparr>"

section \<open>Verification\<close>

subsection \<open>The frame ring and the fence\<close>

lemma retire_reached: "retire c p v = Some (c', p') \<Longrightarrow> v \<le> c'"
  by (induction c p v rule: retire.induct) (auto split: if_splits)

lemma waitForFence_reached: "waitForFence g v = Some g' \<Longrightarrow> v \<le> completed g'"
  by (auto simp: waitForFence_def split: option.splits dest: retire_reached)

lemma unat_next_index:
  fixes w :: uint32_t
  assumes "unat w < R" "R < 2 ^ 32"
  shows "unat ((w + 1) mod word_of_nat R) = (unat w + 1) mod R"
proof -
  have R: "unat (word_of_nat R :: uint32_t) = R"
    using assms(2) by (simp add: unat_of_nat)
  have "unat w + 1 < 2 ^ 32" using assms by simp
  then have "unat (w + 1) = unat w + 1"
    by (simp add: unat_word_ariths)
  then show ?thesis by (simp add: unat_mod R)
qed

lemma beginFrame_Returned:
  assumes "beginFrame q sc g = Returned (i, q', g', log)"
  shows "i = unat (mNextFrameIndex q)" and "i < length (mFrames q)"
    and "mNextFrameFence q' = mNextFrameFence q + 1"
    and "mNextFrameIndex q' = (mNextFrameIndex q + 1) mod word_of_nat (length (mFrames q))"
    and "length (mFrames q') = length (mFrames q)"
    and "mFrameFenceId (mFrames q' ! i) = mNextFrameFence q"
  using assms
  by (auto simp: beginFrame_def Let_def subscript_def split: if_splits sum.splits option.splits)

lemma beginFrames_general:
  assumes "beginFrames q envs = Some rs" "length (mFrames q) = R" "R < 2 ^ 32"
    and "unat (mNextFrameIndex q) < R"
  shows "length rs = length envs \<and>
         (\<forall>k<length envs. rs ! k = ((unat (mNextFrameIndex q) + k) mod R, mNextFrameFence q + word_of_nat k))"
  using assms
proof (induction envs arbitrary: q rs)
  case Nil
  then show ?case by simp
next
  case (Cons env envs)
  obtain sc g where env: "env = (sc, g)" by (cases env)
  from Cons.prems(1) env obtain i q' g' log rs' where
    bf: "beginFrame q sc g = Returned (i, q', g', log)"
    and rest: "beginFrames q' envs = Some rs'"
    and rs: "rs = (i, mFrameFenceId (mFrames q' ! i)) # rs'"
    by (auto split: outcome.splits option.splits)
  note r = beginFrame_Returned[OF bf]
  have idx': "unat (mNextFrameIndex q') = (unat (mNextFrameIndex q) + 1) mod R"
    using r(4) Cons.prems unat_next_index by simp
  have R0: "0 < R" using Cons.prems by simp
  have lt': "unat (mNextFrameIndex q') < R" using idx' R0 by simp
  have len': "length (mFrames q') = R" using r(5) Cons.prems by simp
  from Cons.IH[OF rest len' Cons.prems(3) lt']
  have IH: "length rs' = length envs"
    "\<And>k. k < length envs \<Longrightarrow> rs' ! k = ((unat (mNextFrameIndex q') + k) mod R, mNextFrameFence q' + word_of_nat k)"
    by auto
  show ?case
  proof (intro conjI allI impI)
    show "length rs = length (env # envs)" using IH(1) rs by simp
  next
    fix k assume k: "k < length (env # envs)"
    show "rs ! k = ((unat (mNextFrameIndex q) + k) mod R, mNextFrameFence q + word_of_nat k)"
    proof (cases k)
      case 0
      then show ?thesis using rs r(1,6) Cons.prems(4) by simp
    next
      case (Suc j)
      then have j: "j < length envs" using k by simp
      have "((unat (mNextFrameIndex q) + 1) mod R + j) mod R = (unat (mNextFrameIndex q) + Suc j) mod R"
        by (simp add: mod_add_left_eq)
      then show ?thesis using Suc rs IH(2)[OF j] idx' r(3) by (simp add: add.assoc)
    qed
  qed
qed


lemma unat_fence:
  fixes f :: uint64_t
  assumes "unat f + k < 2 ^ 64"
  shows "unat (f + word_of_nat k) = unat f + k"
proof -
  have "unat (word_of_nat k :: uint64_t) = k" using assms by (simp add: unat_of_nat)
  then show ?thesis using assms by (simp add: unat_word_ariths)
qed

lemma word_len_nonzero:
  assumes "0 < n" "n < 2 ^ 32"
  shows "(word_of_nat n :: uint32_t) \<noteq> 0"
proof
  assume "(word_of_nat n :: uint32_t) = 0"
  then have "unat (word_of_nat n :: uint32_t) = 0" by simp
  then show False using assms by (simp add: unat_of_nat)
qed

text \<open>
  Claim C1. Take \<open>N\<close> calls of \<^verbatim>\<open>beginFrame\<close> that all return, on a queue of \<open>R\<close> slots
  (\<open>0 < R < 2^32\<close>) whose ring index starts at 0. The \<open>k\<close>-th call (from 0) uses slot
  \<open>k mod R\<close>, and the fence value it gives the returned context is the initial fence
  counter plus \<open>k\<close> in \<^verbatim>\<open>uint64_t\<close>: one more than that of the call before, and, as long as
  the 64-bit counter does not wrap, strictly increasing as a number.
\<close>

theorem beginFrame_ring_slot_and_fence:
  assumes "beginFrames q envs = Some rs"
    and "mNextFrameIndex q = 0"
    and "0 < length (mFrames q)"
    and "length (mFrames q) < 2 ^ 32"
  shows "length rs = length envs \<and>
    (\<forall>k<length envs. fst (rs ! k) = k mod length (mFrames q)) \<and>
    (\<forall>k<length envs. snd (rs ! k) = mNextFrameFence q + word_of_nat k) \<and>
    (\<forall>k. Suc k < length envs \<longrightarrow> snd (rs ! Suc k) = snd (rs ! k) + 1) \<and>
    (unat (mNextFrameFence q) + length envs \<le> 2 ^ 64 \<longrightarrow>
       (\<forall>k<length envs. unat (snd (rs ! k)) = unat (mNextFrameFence q) + k))"
proof -
  have idx: "unat (mNextFrameIndex q) < length (mFrames q)"
    using assms(2,3) by simp
  from beginFrames_general[OF assms(1) refl assms(4) idx]
  have len: "length rs = length envs"
    and each: "\<And>k. k < length envs \<Longrightarrow>
        rs ! k = (k mod length (mFrames q), mNextFrameFence q + word_of_nat k)"
    using assms(2) by auto
  have fences: "\<And>k. k < length envs \<Longrightarrow> snd (rs ! k) = mNextFrameFence q + word_of_nat k"
    using each by simp
  have step: "\<And>k. Suc k < length envs \<Longrightarrow> snd (rs ! Suc k) = snd (rs ! k) + 1"
  proof -
    fix k assume k: "Suc k < length envs"
    then have "k < length envs" by simp
    with k fences show "snd (rs ! Suc k) = snd (rs ! k) + 1" by simp
  qed
  have nowrap: "\<And>k. unat (mNextFrameFence q) + length envs \<le> 2 ^ 64 \<Longrightarrow> k < length envs \<Longrightarrow>
      unat (snd (rs ! k)) = unat (mNextFrameFence q) + k"
  proof -
    fix k assume b: "unat (mNextFrameFence q) + length envs \<le> 2 ^ 64" and k: "k < length envs"
    then have "unat (mNextFrameFence q) + k < 2 ^ 64" by simp
    then show "unat (snd (rs ! k)) = unat (mNextFrameFence q) + k"
      using fences[OF k] unat_fence by simp
  qed
  show ?thesis using len each step nowrap fences by simp
qed

theorem beginFrame_ring_slot_and_fence_witness:
  "beginFrames example_queue [(example_sc, busy), (example_sc, busy), (example_sc, idle7)]
     = Some [(0, 7), (1, 8), (0, 9)] \<and>
   mNextFrameIndex example_queue = 0 \<and>
   0 < length (mFrames example_queue) \<and>
   length (mFrames example_queue) < 2 ^ 32 \<and>
   fst ([(0, 7), (1, 8), (0, 9 :: uint64_t)] ! 2) = 2 mod length (mFrames example_queue) \<and>
   snd ([(0 :: nat, 7), (1, 8), (0, 9)] ! 2) = mNextFrameFence example_queue + word_of_nat 2"
proof -
  let ?envs = "[(example_sc, busy), (example_sc, busy), (example_sc, idle7)]"
  let ?rs = "[(0 :: nat, 7 :: uint64_t), (1, 8), (0, 9)]"
  have run: "beginFrames example_queue ?envs = Some ?rs" by code_simp
  have i0: "mNextFrameIndex example_queue = 0" by (simp add: example_queue_def)
  have r0: "0 < length (mFrames example_queue)" by (simp add: example_queue_def)
  have r1: "length (mFrames example_queue) < 2 ^ 32" by (simp add: example_queue_def)
  have k: "2 < length ?envs" by simp
  note all = beginFrame_ring_slot_and_fence[OF run i0 r0 r1]
  note slot = all[THEN conjunct2, THEN conjunct1, rule_format, OF k]
  note fence = all[THEN conjunct2, THEN conjunct2, THEN conjunct1, rule_format, OF k]
  from run i0 r0 r1 slot fence show ?thesis by (intro conjI)
qed

text \<open>
  Claim C2. When \<^verbatim>\<open>beginFrame\<close> returns for slot \<open>S\<close>, the wait on the fence value the
  slot held has ended with the fence at or beyond that value; the wait is the first call
  made, before the resets of the slot's command allocator and list, and the slot's fence
  id is the new frame's value only then. While the wait has not ended the slot is as it
  was, and when the wait never ends \<^verbatim>\<open>beginFrame\<close> never returns.
\<close>

theorem beginFrame_waits_for_slot_fence:
  "(beginFrame q sc g = Returned (S, q', g', log) \<longrightarrow>
      S = unat (mNextFrameIndex q) \<and>
      waitForFence g (mFrameFenceId (mFrames q ! S)) = Some g' \<and>
      mFrameFenceId (mFrames q ! S) \<le> completed g' \<and>
      log = [WaitForFence (mFrameFenceId (mFrames q ! S)), ResetCommandAllocator S,
             ResetCommandList S, DescriptorsAdvanceFrame, UploadBufferAdvanceFrame] \<and>
      mFrameFenceId (mFrames q' ! S) = mNextFrameFence q) \<and>
   (beginFrame q sc g = Blocked qb logb \<longrightarrow>
      waitForFence g (mFrameFenceId (mFrames q ! unat (mNextFrameIndex q))) = None \<and>
      mFrames qb = mFrames q \<and>
      logb = [WaitForFence (mFrameFenceId (mFrames q ! unat (mNextFrameIndex q)))]) \<and>
   (sc_mSwapChain sc \<and> unat (mNextFrameIndex q) < length (mFrames q) \<and>
    length (mFrames q) < 2 ^ 32 \<and>
    waitForFence g (mFrameFenceId (mFrames q ! unat (mNextFrameIndex q))) = None \<longrightarrow>
      (\<exists>qb lb. beginFrame q sc g = Blocked qb lb))"
proof (intro conjI impI)
  assume r: "beginFrame q sc g = Returned (S, q', g', log)"
  then have w: "waitForFence g (mFrameFenceId (mFrames q ! S)) = Some g'"
    and S: "S = unat (mNextFrameIndex q)"
    and l: "log = [WaitForFence (mFrameFenceId (mFrames q ! S)), ResetCommandAllocator S,
             ResetCommandList S, DescriptorsAdvanceFrame, UploadBufferAdvanceFrame]"
    by (auto simp: beginFrame_def Let_def subscript_def split: if_splits sum.splits option.splits)
  show "S = unat (mNextFrameIndex q)" by (rule S)
  show "waitForFence g (mFrameFenceId (mFrames q ! S)) = Some g'" by (rule w)
  show "mFrameFenceId (mFrames q ! S) \<le> completed g'" using w by (rule waitForFence_reached)
  show "log = [WaitForFence (mFrameFenceId (mFrames q ! S)), ResetCommandAllocator S,
             ResetCommandList S, DescriptorsAdvanceFrame, UploadBufferAdvanceFrame]" by (rule l)
  show "mFrameFenceId (mFrames q' ! S) = mNextFrameFence q" using beginFrame_Returned(6)[OF r] .
next
  assume b: "beginFrame q sc g = Blocked qb logb"
  then show "waitForFence g (mFrameFenceId (mFrames q ! unat (mNextFrameIndex q))) = None"
    and "mFrames qb = mFrames q"
    and "logb = [WaitForFence (mFrameFenceId (mFrames q ! unat (mNextFrameIndex q)))]"
    by (auto simp: beginFrame_def Let_def subscript_def split: if_splits sum.splits option.splits)
next
  assume a: "sc_mSwapChain sc \<and> unat (mNextFrameIndex q) < length (mFrames q) \<and>
    length (mFrames q) < 2 ^ 32 \<and>
    waitForFence g (mFrameFenceId (mFrames q ! unat (mNextFrameIndex q))) = None"
  have p0: "0 < length (mFrames q)" using a by (cases "mFrames q") auto
  have p1: "length (mFrames q) < 2 ^ 32" using a by blast
  have "(word_of_nat (length (mFrames q)) :: uint32_t) \<noteq> 0"
    by (rule word_len_nonzero[OF p0 p1])
  with a show "\<exists>qb lb. beginFrame q sc g = Blocked qb lb"
    by (simp add: beginFrame_def Let_def subscript_def)
qed

theorem beginFrame_waits_for_slot_fence_witness:
  "sc_mSwapChain example_sc \<and>
   unat (mNextFrameIndex example_queue) < length (mFrames example_queue) \<and>
   length (mFrames example_queue) < 2 ^ 32 \<and>
   waitForFence idle (mFrameFenceId (mFrames example_queue ! unat (mNextFrameIndex example_queue))) = None \<and>
   (\<exists>qb lb. beginFrame example_queue example_sc idle = Blocked qb lb)"
proof -
  have h: "sc_mSwapChain example_sc \<and>
   unat (mNextFrameIndex example_queue) < length (mFrames example_queue) \<and>
   length (mFrames example_queue) < 2 ^ 32 \<and>
   waitForFence idle (mFrameFenceId (mFrames example_queue ! unat (mNextFrameIndex example_queue))) = None"
    by (simp add: example_sc_def example_queue_def idle_def waitForFence_def)
  note never = beginFrame_waits_for_slot_fence[THEN conjunct2, THEN conjunct2, rule_format, OF h]
  from h never show ?thesis by blast
qed


subsection \<open>initPipeline\<close>

lemma barriers_of_append: "barriers_of (xs @ ys) = barriers_of xs @ barriers_of ys"
  by (simp add: barriers_of_def)

lemma initBarrier_Inr:
  assumes "initBarrier sc k state = Inr es"
  shows "barriers_of es = code_initBarriers sc k [state]"
  using assms
  by (auto simp: initBarrier_def barriers_of_def code_initBarriers_def needs_transition_def
      rtv_resource_def subscript_def at_def split: if_splits sum.splits)

lemma code_initBarriers_Cons:
  "code_initBarriers sc k (state # states) =
     code_initBarriers sc k [state] @ code_initBarriers sc (Suc k) states"
  by (simp add: code_initBarriers_def)

lemma initBarriers_Inr:
  "initBarriers sc k states = Inr es \<Longrightarrow> barriers_of es = code_initBarriers sc k states"
proof (induction states arbitrary: k es)
  case Nil
  then show ?case by (simp add: barriers_of_def code_initBarriers_def)
next
  case (Cons state states)
  from Cons.prems obtain e1 e2 where
    a: "initBarrier sc k state = Inr e1" and b: "initBarriers sc (Suc k) states = Inr e2"
    and es: "es = e1 @ e2"
    by (auto split: sum.splits)
  show ?case
    using initBarrier_Inr[OF a] Cons.IH[OF b] es
    by (simp add: barriers_of_append code_initBarriers_Cons[of sc k state states])
qed

text \<open>
  Claim C4, as amended. When \<^verbatim>\<open>initPipeline\<close> returns, the barriers it has recorded are,
  in declared order, one for each configured render target whose declared initial state
  is neither Common nor RenderTarget, and none for the others; each goes from the
  RenderTarget state to the declared initial state of its resource.
\<close>

theorem initPipeline_transitions:
  assumes "initPipeline q sc g = Returned (q', g', log)"
  shows "\<exists>pipeline.
           subscript (mPipelines (sc_currentSolution sc)) (unat (sc_getPipelineID sc)) = Inr pipeline \<and>
           barriers_of log = code_initBarriers sc 0 (mRTVInitialStates pipeline)"
proof -
  from assms obtain i q1 g1 log1 pipeline es g2 log2 where
    bf: "beginFrame q sc g = Returned (i, q1, g1, log1)"
    and p: "subscript (mPipelines (sc_currentSolution sc)) (unat (sc_getPipelineID sc)) = Inr pipeline"
    and ib: "initBarriers sc 0 (mRTVInitialStates pipeline) = Inr es"
    and ef: "endFrame (mFrames q1 ! i) g1 = (g2, log2)"
    and log: "log = log1 @ es @ [Cmd Close, ExecuteCommandLists] @ log2"
    by (auto simp: initPipeline_def split: outcome.splits sum.splits prod.splits)
  have l1: "barriers_of log1 = []"
    using bf by (auto simp: beginFrame_def Let_def barriers_of_def split: if_splits sum.splits option.splits)
  have l2: "barriers_of log2 = []"
    using ef by (auto simp: endFrame_def barriers_of_def)
  have "barriers_of log = barriers_of es"
    using log l1 l2 by (simp add: barriers_of_append) (simp add: barriers_of_def)
  with p initBarriers_Inr[OF ib] show ?thesis by simp
qed


theorem initPipeline_transitions_witness:
  "initPipeline_barriers example_queue example_sc busy = Some (code_initBarriers example_sc 0 [4, 128, 0])"
proof -
  obtain q' g' log where h: "initPipeline example_queue example_sc busy = Returned (q', g', log)"
    by (simp add: initPipeline_def beginFrame_def example_queue_def example_sc_def busy_def
        example_context_def example_solution_def example_works_def waitForFence_def subscript_def
        at_def Let_def initBarrier_def endFrame_def RESOURCE_STATE_COMMON_def
        RESOURCE_STATE_RENDER_TARGET_def)
  from initPipeline_transitions[OF h] obtain pipeline where
    p: "subscript (mPipelines (sc_currentSolution example_sc)) (unat (sc_getPipelineID example_sc)) = Inr pipeline"
    and b: "barriers_of log = code_initBarriers example_sc 0 (mRTVInitialStates pipeline)"
    by blast
  from p have "mRTVInitialStates pipeline = [4, 128, 0]"
    by (auto simp: example_sc_def example_solution_def subscript_def)
  with b have "barriers_of log = code_initBarriers example_sc 0 [4, 128, 0]" by simp
  with h show ?thesis by (simp add: initPipeline_barriers_def)
qed

text \<open>
  The claim as the specification words it fails on the example: the one barrier recorded
  goes from RenderTarget to the declared state 128, not from 128 to RenderTarget.
\<close>

theorem initPipeline_direction_counterexample:
  "initPipeline_barriers example_queue example_sc busy
     = Some [Transition 101 RESOURCE_STATE_RENDER_TARGET 128] \<and>
   spec_initBarriers example_sc [4, 128, 0] = [Transition 101 128 RESOURCE_STATE_RENDER_TARGET] \<and>
   initPipeline_barriers example_queue example_sc busy \<noteq> Some (spec_initBarriers example_sc [4, 128, 0])"
  by (simp add: initPipeline_barriers_def initPipeline_def beginFrame_def example_queue_def
      example_sc_def busy_def example_context_def example_solution_def example_works_def
      waitForFence_def subscript_def at_def Let_def initBarrier_def endFrame_def
      RESOURCE_STATE_COMMON_def RESOURCE_STATE_RENDER_TARGET_def barriers_of_def
      spec_initBarriers_def needs_transition_def rtv_resource_def enumerate_eq_zip upt_rec)

subsection \<open>renderFrame: the first command and the render-target views\<close>

lemma commands_Cons_Cmd: "commands (Cmd c # es) = c # commands es"
  by (simp add: commands_def)

text \<open>
  Claim C10. With the back-buffer index of the context inside \<^verbatim>\<open>mFramebuffers\<close>, the first
  call \<^verbatim>\<open>renderFrame\<close> records, and so the first command of the command list, is one
  \<^verbatim>\<open>ResourceBarrier\<close> of a single transition of that framebuffer from Present to
  RenderTarget; this holds whatever comes after, also when a later step throws.
\<close>

theorem renderFrame_first_command:
  assumes "unat (mBackBufferIndex pContext) < length (mFramebuffers (mRenderWorks pContext))"
  shows "\<exists>rest r.
     renderFrame mul cam pContext =
       (Cmd (ResourceBarrier
               [Transition (mFramebuffers (mRenderWorks pContext) ! unat (mBackBufferIndex pContext))
                  D3D12_RESOURCE_STATE_PRESENT D3D12_RESOURCE_STATE_RENDER_TARGET]) # rest, r) \<and>
     commands (fst (renderFrame mul cam pContext)) =
       ResourceBarrier
         [Transition (mFramebuffers (mRenderWorks pContext) ! unat (mBackBufferIndex pContext))
            D3D12_RESOURCE_STATE_PRESENT D3D12_RESOURCE_STATE_RENDER_TARGET] # commands rest"
proof -
  let ?b = "Cmd (ResourceBarrier
               [Transition (mFramebuffers (mRenderWorks pContext) ! unat (mBackBufferIndex pContext))
                  D3D12_RESOURCE_STATE_PRESENT D3D12_RESOURCE_STATE_RENDER_TARGET])"
  define k where "k = (\<lambda>u :: unit.
          case subscript (mPipelines (mRenderSolution pContext)) (unat (mPipelineID pContext)) of
            Inl e \<Rightarrow> (thrown e :: unit recorded)
          | Inr pipeline \<Rightarrow>
              and_then (record_calls [Cmd SetDescriptorHeaps] ()) (\<lambda>u.
              and_then (for_each (renderPass mul cam pContext) () (enumerate 0 (mPasses pipeline))) (\<lambda>u.
              record_calls [Cmd Close, ExecuteCommandLists] ())))"
  have rf: "renderFrame mul cam pContext = and_then (record_calls [?b] ()) k"
    using assms by (simp add: renderFrame_def subscript_def k_def)
  obtain es r where kr: "k () = (es, r)" by (cases "k ()")
  have "renderFrame mul cam pContext = (?b # es, r)"
    by (simp add: rf and_then_def record_calls_def kr)
  then show ?thesis by (simp add: commands_Cons_Cmd)
qed

theorem renderFrame_first_command_witness:
  "unat (mBackBufferIndex example_frame) < length (mFramebuffers (mRenderWorks example_frame)) \<and>
   (\<exists>rest r. renderFrame example_mul example_cam example_frame =
      (Cmd (ResourceBarrier
              [Transition 101 D3D12_RESOURCE_STATE_PRESENT D3D12_RESOURCE_STATE_RENDER_TARGET]) # rest, r))"
proof -
  have h: "unat (mBackBufferIndex example_frame) < length (mFramebuffers (mRenderWorks example_frame))"
    by (simp add: example_frame_def example_context_def example_works_def)
  have fb: "mFramebuffers (mRenderWorks example_frame) ! unat (mBackBufferIndex example_frame) = 101"
    by (simp add: example_frame_def example_context_def example_works_def)
  from renderFrame_first_command[OF h, of example_mul example_cam] obtain rest r where
    "renderFrame example_mul example_cam example_frame =
       (Cmd (ResourceBarrier
               [Transition (mFramebuffers (mRenderWorks example_frame) ! unat (mBackBufferIndex example_frame))
                  D3D12_RESOURCE_STATE_PRESENT D3D12_RESOURCE_STATE_RENDER_TARGET]) # rest, r)"
    by blast
  then have "renderFrame example_mul example_cam example_frame =
       (Cmd (ResourceBarrier
               [Transition 101 D3D12_RESOURCE_STATE_PRESENT D3D12_RESOURCE_STATE_RENDER_TARGET]) # rest, r)"
    by (simp only: fb)
  with h show ?thesis by blast
qed

lemma outputAttachment_Inr:
  "outputAttachment pContext acc rt = (e, Inr r) \<Longrightarrow> r = acc @ [resolveRTV pContext (att_mHandle rt)]"
  by (auto simp: outputAttachment_def Let_def thrown_def finished_def record_calls_def
      split: LoadOp.splits)

lemma outputAttachments_rtvs:
  "for_each (outputAttachment pContext) acc atts = (es, Inr rtvs) \<Longrightarrow>
   rtvs = acc @ map (\<lambda>rt. resolveRTV pContext (att_mHandle rt)) atts"
proof (induction atts arbitrary: acc es)
  case Nil
  then show ?case by simp
next
  case (Cons rt atts)
  from Cons.prems obtain e1 r1 e2 where
    step: "outputAttachment pContext acc rt = (e1, Inr r1)"
    and rest: "for_each (outputAttachment pContext) r1 atts = (e2, Inr rtvs)"
    by (auto split: prod.splits sum.splits)
  from Cons.IH[OF rest] outputAttachment_Inr[OF step] show ?case by simp
qed

text \<open>
  Claim C8. The render-target view of an output attachment: handle 0 gives the view at the
  current back-buffer index; a handle equal to the back-buffer count gives the view at
  back-buffer index plus back-buffer count; any other handle gives the view at the
  handle itself. The views a subpass binds are its output attachments' handles resolved
  this way, in order.
\<close>

theorem resolveRTV_sentinels:
  "(handle = 0 \<longrightarrow> resolveRTV pContext handle = mBackBufferIndex pContext) \<and>
   (handle = mBackBufferCount pContext \<longrightarrow>
      resolveRTV pContext handle = mBackBufferIndex pContext + mBackBufferCount pContext) \<and>
   (handle \<noteq> 0 \<and> handle \<noteq> mBackBufferCount pContext \<longrightarrow> resolveRTV pContext handle = handle) \<and>
   (preSubpass pContext subpass = (es, Inr rtvs) \<longrightarrow>
      rtvs = map (\<lambda>rt. resolveRTV pContext (att_mHandle rt)) (mOutputAttachments subpass))"
proof (intro conjI impI)
  assume p: "preSubpass pContext subpass = (es, Inr rtvs)"
  then obtain e1 where
    "for_each (outputAttachment pContext) [] (mOutputAttachments subpass) = (e1, Inr rtvs)"
    by (auto simp: preSubpass_def and_then_def finished_def record_calls_def
        split: prod.splits sum.splits if_splits)
  from outputAttachments_rtvs[OF this]
  show "rtvs = map (\<lambda>rt. resolveRTV pContext (att_mHandle rt)) (mOutputAttachments subpass)"
    by simp
qed (auto simp: resolveRTV_def)


theorem resolveRTV_sentinels_witness:
  "2 = mBackBufferCount example_frame \<and>
   resolveRTV example_frame 2 = mBackBufferIndex example_frame + mBackBufferCount example_frame"
proof -
  have h: "2 = mBackBufferCount example_frame"
    by (simp add: example_frame_def)
  note alt = resolveRTV_sentinels[THEN conjunct2, THEN conjunct1, rule_format, OF h]
  from h alt show ?thesis by (intro conjI)
qed

subsection \<open>Constant buffers\<close>

lemma length_float_bytes: "length (float_bytes w) = 4"
  by (simp add: float_bytes_def)

lemma length_matrix_bytes: "length (matrix_bytes m) = 64"
  by (simp add: matrix_bytes_def length_concat comp_def length_float_bytes sum_list_triv)














lemma align_up_64: "unat (align_up 64 256) = 256"
  by (simp add: align_up_def)




subsection \<open>The search for the constant buffer\<close>

lemma resolve_none:
  "matches index cbs = [] \<Longrightarrow>
   resolveConstantBuffer w cbs index descID = ([], Inl (RuntimeError ''constant buffer not found''))"
  by (induction cbs) (auto simp: matches_def split: if_splits)

lemma resolve_first:
  "matches index cbs = cb # others \<Longrightarrow>
   resolveConstantBuffer w cbs index descID = resolveConstantBuffer w [cb] index descID"
  by (induction cbs) (auto simp: matches_def split: if_splits)

text \<open>
  Claim C3, as amended. To resolve a constant-buffer attribute of a dynamic collection,
  both resolvers search the constant buffers declared by the owning subpass, in declared
  order, for one whose index equals the collection's. When none matches, the resolver
  fails with "constant buffer not found". When one or more match, the first match is
  used and the search ends; later matches are not looked at and are no error.
\<close>

theorem constant_buffer_search:
  "(matches (collection_mIndex collection) (mConstantBuffers subpass) = [] \<longrightarrow>
      attr_mDataType attr = Descriptor_ConstantBuffer \<longrightarrow>
      passAttribute cam subpass collection descID attr
        = ([], Inl (RuntimeError ''constant buffer not found''))) \<and>
   (matches (collection_mIndex collection) (shader_mConstantBuffers shaderSubpass) = [] \<longrightarrow>
      attr_mDataType attr = Descriptor_ConstantBuffer \<longrightarrow>
      instanceAttribute mul cam pBatch objectID shaderSubpass collection descID attr
        = ([], Inl (RuntimeError ''constant buffer not found''))) \<and>
   (matches (collection_mIndex collection) (mConstantBuffers subpass) = cb # others \<longrightarrow>
      passAttribute cam subpass collection descID attr
        = passAttribute cam (subpass\<lparr>mConstantBuffers := [cb]\<rparr>) collection descID attr) \<and>
   (matches (collection_mIndex collection) (shader_mConstantBuffers shaderSubpass) = cb # others \<longrightarrow>
      instanceAttribute mul cam pBatch objectID shaderSubpass collection descID attr
        = instanceAttribute mul cam pBatch objectID
            (shaderSubpass\<lparr>shader_mConstantBuffers := [cb]\<rparr>) collection descID attr)"
proof (intro conjI impI)
  assume "matches (collection_mIndex collection) (mConstantBuffers subpass) = []"
    and "attr_mDataType attr = Descriptor_ConstantBuffer"
  then show "passAttribute cam subpass collection descID attr
        = ([], Inl (RuntimeError ''constant buffer not found''))"
    by (simp add: passAttribute_def resolve_none and_then_def)
next
  assume "matches (collection_mIndex collection) (shader_mConstantBuffers shaderSubpass) = []"
    and "attr_mDataType attr = Descriptor_ConstantBuffer"
  then show "instanceAttribute mul cam pBatch objectID shaderSubpass collection descID attr
        = ([], Inl (RuntimeError ''constant buffer not found''))"
    by (simp add: instanceAttribute_def resolve_none and_then_def)
next
  assume m: "matches (collection_mIndex collection) (mConstantBuffers subpass) = cb # others"
  show "passAttribute cam subpass collection descID attr
        = passAttribute cam (subpass\<lparr>mConstantBuffers := [cb]\<rparr>) collection descID attr"
    by (simp add: passAttribute_def resolve_first[OF m] split: DescriptorType.splits)
next
  assume m: "matches (collection_mIndex collection) (shader_mConstantBuffers shaderSubpass) = cb # others"
  show "instanceAttribute mul cam pBatch objectID shaderSubpass collection descID attr
        = instanceAttribute mul cam pBatch objectID
            (shaderSubpass\<lparr>shader_mConstantBuffers := [cb]\<rparr>) collection descID attr"
    by (simp add: instanceAttribute_def resolve_first[OF m] split: DescriptorType.splits)
qed

theorem constant_buffer_search_witness:
  "matches (collection_mIndex example_collection) (mConstantBuffers example_subpass)
     = example_view_cb # [example_proj_cb] \<and>
   passAttribute example_cam example_subpass example_collection 0 example_cb_attribute
     = passAttribute example_cam (example_subpass\<lparr>mConstantBuffers := [example_view_cb]\<rparr>)
         example_collection 0 example_cb_attribute"
proof -
  have m: "matches (collection_mIndex example_collection) (mConstantBuffers example_subpass)
     = example_view_cb # [example_proj_cb]"
    by (simp add: matches_def example_collection_def example_subpass_def example_view_cb_def
        example_proj_cb_def)
  note first = constant_buffer_search[THEN conjunct2, THEN conjunct2, THEN conjunct1, rule_format, OF m]
  from m first show ?thesis by (intro conjI)
qed

text \<open>
  The claim as the specification words it (more than one match is fatal) fails on the
  example: two declared constant buffers match, and the resolver returns normally, having
  uploaded the first.
\<close>

theorem ambiguous_constant_buffer_counterexample:
  "length (matches (collection_mIndex example_collection) (mConstantBuffers example_subpass)) = 2 \<and>
   passAttribute example_cam example_subpass example_collection 0 example_cb_attribute
     = ([Upload (matrix_bytes (mView example_cam) @ replicate 192 0),
         CreateConstantBufferView 256 0], Inr 1)"
  by (simp add: matches_def example_collection_def example_subpass_def example_view_cb_def
      example_proj_cb_def example_cb_attribute_def passAttribute_def and_then_def finished_def
      buildCB_def align_up_64 writePassConstant_def write_matrix_def sizeof_Matrix4f_def
      length_matrix_bytes)

subsection \<open>Scope legality of constant fields\<close>

lemma fold_error_fails:
  assumes "\<exists>c\<in>set cs. \<forall>s. \<exists>e. f s c = Inl e"
  shows "\<exists>e. fold_error f s cs = Inl e"
  using assms
proof (induction cs arbitrary: s)
  case Nil
  then show ?case by simp
next
  case (Cons c cs)
  show ?case
  proof (cases "f s c")
    case (Inl e)
    then show ?thesis by simp
  next
    case (Inr s')
    with Cons.prems have "\<exists>c\<in>set cs. \<forall>s. \<exists>e. f s c = Inl e"
      by (metis Inl_Inr_False set_ConsD)
    from Cons.IH[OF this, of s'] Inr show ?thesis by simp
  qed
qed

lemma buildCB_fails:
  assumes "\<exists>c\<in>set (cb_mConstants cb). \<forall>s. \<exists>e. w s c = Inl e"
  shows "\<exists>e. buildCB w cb = Inl e"
proof (cases "cb_mSize cb = 0")
  case True
  then show ?thesis by (simp add: buildCB_def)
next
  case False
  from fold_error_fails[OF assms] obtain e where
    "fold_error w (replicate (unat (align_up (cb_mSize cb) 256)) 0, 0) (cb_mConstants cb) = Inl e"
    by blast
  with False show ?thesis by (simp add: buildCB_def)
qed

lemma instance_rejects:
  "per_pass_only c \<Longrightarrow> \<exists>e. writeInstanceConstant mul cam pBatch objectID s c = Inl e"
  by (auto simp: per_pass_only_def writeInstanceConstant_def split: Source.splits)

lemma pass_rejects:
  "per_object_only c \<Longrightarrow> \<exists>e. writePassConstant cam s c = Inl e"
  by (auto simp: per_object_only_def writePassConstant_def split: Source.splits)

lemma null_batch_rejects:
  "per_object_only c \<Longrightarrow> \<exists>e. writeInstanceConstant mul cam None objectID s c = Inl e"
  by (auto simp: per_object_only_def writeInstanceConstant_def split: Source.splits)

text \<open>
  Claim C5. A Projection or View field makes the per-draw writer fail, and a WorldView or
  WorldInverseTranspose field makes the PerPass writer fail; with a null batch a
  WorldView or WorldInverseTranspose field makes the per-draw writer fail. For an engine
  source the failures are the source's own messages. A constant buffer that contains
  such a field is never built: building it fails (with that failure or an earlier one).
\<close>

theorem constant_scope_legality:
  "(per_pass_only c \<longrightarrow>
      (\<exists>e. writeInstanceConstant mul cam pBatch objectID st c = Inl e)) \<and>
   (per_object_only c \<longrightarrow>
      (\<exists>e. writePassConstant cam st c = Inl e) \<and>
      (\<exists>e. writeInstanceConstant mul cam None objectID st c = Inl e)) \<and>
   (constant_mSource c = EngineSource \<longrightarrow>
      (constant_mDataType c = Data_Proj \<longrightarrow>
         writeInstanceConstant mul cam pBatch objectID st c
           = Inl (RuntimeError ''Proj cannot be per instance'')) \<and>
      (constant_mDataType c = Data_View \<longrightarrow>
         writeInstanceConstant mul cam pBatch objectID st c
           = Inl (RuntimeError ''View cannot be per instance'')) \<and>
      (constant_mDataType c = Data_WorldView \<longrightarrow>
         writePassConstant cam st c = Inl (RuntimeError ''WorldView cannot be per pass'')) \<and>
      (constant_mDataType c = Data_WorldInvT \<longrightarrow>
         writePassConstant cam st c = Inl (RuntimeError ''WorldInvT cannot be per pass'')) \<and>
      (per_object_only c \<longrightarrow>
         writeInstanceConstant mul cam None objectID st c
           = Inl (RuntimeError ''batch is nullptr''))) \<and>
   ((\<exists>c\<in>set (cb_mConstants cb). per_pass_only c) \<longrightarrow>
      (\<exists>e. buildCB (writeInstanceConstant mul cam pBatch objectID) cb = Inl e)) \<and>
   ((\<exists>c\<in>set (cb_mConstants cb). per_object_only c) \<longrightarrow>
      (\<exists>e. buildCB (writePassConstant cam) cb = Inl e) \<and>
      (\<exists>e. buildCB (writeInstanceConstant mul cam None objectID) cb = Inl e))"
proof -
  have A: "per_pass_only c \<longrightarrow>
      (\<exists>e. writeInstanceConstant mul cam pBatch objectID st c = Inl e)"
    using instance_rejects by blast
  have B: "per_object_only c \<longrightarrow>
      (\<exists>e. writePassConstant cam st c = Inl e) \<and>
      (\<exists>e. writeInstanceConstant mul cam None objectID st c = Inl e)"
    using pass_rejects null_batch_rejects by blast
  have C: "constant_mSource c = EngineSource \<longrightarrow>
      (constant_mDataType c = Data_Proj \<longrightarrow>
         writeInstanceConstant mul cam pBatch objectID st c
           = Inl (RuntimeError ''Proj cannot be per instance'')) \<and>
      (constant_mDataType c = Data_View \<longrightarrow>
         writeInstanceConstant mul cam pBatch objectID st c
           = Inl (RuntimeError ''View cannot be per instance'')) \<and>
      (constant_mDataType c = Data_WorldView \<longrightarrow>
         writePassConstant cam st c = Inl (RuntimeError ''WorldView cannot be per pass'')) \<and>
      (constant_mDataType c = Data_WorldInvT \<longrightarrow>
         writePassConstant cam st c = Inl (RuntimeError ''WorldInvT cannot be per pass'')) \<and>
      (per_object_only c \<longrightarrow>
         writeInstanceConstant mul cam None objectID st c
           = Inl (RuntimeError ''batch is nullptr''))"
    by (auto simp: writeInstanceConstant_def writePassConstant_def per_object_only_def)
  have D: "(\<exists>c\<in>set (cb_mConstants cb). per_pass_only c) \<longrightarrow>
      (\<exists>e. buildCB (writeInstanceConstant mul cam pBatch objectID) cb = Inl e)"
  proof
    assume "\<exists>c\<in>set (cb_mConstants cb). per_pass_only c"
    then have "\<exists>c\<in>set (cb_mConstants cb). \<forall>s. \<exists>e. writeInstanceConstant mul cam pBatch objectID s c = Inl e"
      using instance_rejects by blast
    then show "\<exists>e. buildCB (writeInstanceConstant mul cam pBatch objectID) cb = Inl e"
      by (rule buildCB_fails)
  qed
  have E: "(\<exists>c\<in>set (cb_mConstants cb). per_object_only c) \<longrightarrow>
      (\<exists>e. buildCB (writePassConstant cam) cb = Inl e) \<and>
      (\<exists>e. buildCB (writeInstanceConstant mul cam None objectID) cb = Inl e)"
  proof (intro impI conjI)
    assume a: "\<exists>c\<in>set (cb_mConstants cb). per_object_only c"
    then have "\<exists>c\<in>set (cb_mConstants cb). \<forall>s. \<exists>e. writePassConstant cam s c = Inl e"
      using pass_rejects by blast
    then show "\<exists>e. buildCB (writePassConstant cam) cb = Inl e"
      by (rule buildCB_fails)
    from a have "\<exists>c\<in>set (cb_mConstants cb). \<forall>s. \<exists>e. writeInstanceConstant mul cam None objectID s c = Inl e"
      using null_batch_rejects by blast
    then show "\<exists>e. buildCB (writeInstanceConstant mul cam None objectID) cb = Inl e"
      by (rule buildCB_fails)
  qed
  from A B C D E show ?thesis by (intro conjI)
qed

theorem constant_scope_legality_witness:
  "(\<exists>c\<in>set (cb_mConstants example_view_cb). per_pass_only c) \<and>
   (\<exists>e. buildCB (writeInstanceConstant example_mul example_cam None 0) example_view_cb = Inl e)"
proof -
  have h: "\<exists>c\<in>set (cb_mConstants example_view_cb). per_pass_only c"
    by (simp add: example_view_cb_def per_pass_only_def)
  note r = constant_scope_legality[THEN conjunct2, THEN conjunct2, THEN conjunct2, THEN conjunct1,
      rule_format, OF h]
  from h r show ?thesis by (intro conjI)
qed


subsection \<open>The draws of an object batch\<close>

lemma commands_append: "commands (xs @ ys) = commands xs @ commands ys"
  by (simp add: commands_def)

lemma indexed_draws_append: "indexed_draws (xs @ ys) = indexed_draws xs @ indexed_draws ys"
  by (simp add: indexed_draws_def commands_append)

lemma indexed_draws_Nil: "indexed_draws [] = []"
  by (simp add: indexed_draws_def commands_def)

lemma and_then_draws:
  "indexed_draws (fst (and_then m f)) =
     indexed_draws (fst m) @ (case snd m of Inl e \<Rightarrow> [] | Inr x \<Rightarrow> indexed_draws (fst (f x)))"
  by (cases m) (auto simp: and_then_def indexed_draws_append indexed_draws_Nil split: sum.splits prod.splits)

lemma for_each_no_draws:
  assumes "\<And>s x. indexed_draws (fst (f s x)) = []"
  shows "indexed_draws (fst (for_each f s xs)) = []"
proof (induction xs arbitrary: s)
  case Nil
  then show ?case by (simp add: indexed_draws_Nil)
next
  case (Cons x xs)
  obtain es r where fx: "f s x = (es, r)" by (cases "f s x")
  have e: "indexed_draws es = []" using assms[of s x] fx by simp
  show ?case
  proof (cases r)
    case (Inl err)
    then show ?thesis using fx e by simp
  next
    case (Inr s')
    obtain es' r' where rest: "for_each f s' xs = (es', r')" by (cases "for_each f s' xs")
    have "indexed_draws es' = []" using Cons.IH[of s'] rest by simp
    then show ?thesis using fx e Inr rest by (simp add: indexed_draws_append)
  qed
qed

lemma thrown_no_draws: "indexed_draws (fst (thrown e)) = []"
  by (simp add: thrown_def indexed_draws_Nil)

lemma finished_no_draws: "indexed_draws (fst (finished x)) = []"
  by (simp add: finished_def indexed_draws_Nil)

lemma resolveConstantBuffer_no_draws:
  "indexed_draws (fst (resolveConstantBuffer w cbs index descID)) = []"
  by (induction cbs)
    (auto simp: indexed_draws_def commands_def is_indexed_draw_def split: sum.splits)

lemma instanceAttribute_no_draws:
  "indexed_draws (fst (instanceAttribute mul cam pBatch objectID shaderSubpass collection descID attr)) = []"
  by (simp add: instanceAttribute_def and_then_draws resolveConstantBuffer_no_draws
      thrown_no_draws finished_no_draws split: DescriptorType.splits sum.splits)

lemma instanceSubrange_no_draws:
  "indexed_draws (fst (instanceSubrange mul cam pBatch objectID shaderSubpass collection descID subrange)) = []"
  by (simp add: instanceSubrange_def for_each_no_draws instanceAttribute_no_draws
      thrown_no_draws split: Source.splits)

lemma record_no_draws:
  "\<forall>e\<in>set es. \<forall>c. e = Cmd c \<longrightarrow> \<not> is_indexed_draw c \<Longrightarrow> indexed_draws (fst (record_calls es x)) = []"
  by (induction es) (auto simp: record_calls_def indexed_draws_def commands_def split: event.splits)

lemma instanceList_no_draws:
  "indexed_draws (fst (instanceList mul cam pBatch objectID shaderSubpass collection u list)) = []"
  by (simp add: instanceList_def and_then_draws for_each_no_draws instanceSubrange_no_draws
      thrown_no_draws record_no_draws is_indexed_draw_def split: sum.splits)

lemma bindStoredTable_no_draws: "indexed_draws (fst (bindStoredTable u list)) = []"
  by (simp add: bindStoredTable_def record_no_draws is_indexed_draw_def)

lemma instanceCollection_no_draws:
  "indexed_draws (fst (instanceCollection mul cam pBatch objectID shaderSubpass u collection)) = []"
  by (simp add: instanceCollection_def and_then_draws for_each_no_draws instanceList_no_draws
      bindStoredTable_no_draws thrown_no_draws split: sum.splits Persistency.splits)

lemma buildDynamicDescriptors_no_draws:
  "indexed_draws (fst (buildDynamicDescriptors mul shaderSubpass subpassData cam pBatch objectID)) = []"
  by (simp add: buildDynamicDescriptors_def for_each_no_draws instanceCollection_no_draws)

lemma drawShaderSubpass_draws:
  assumes "drawShaderSubpass mul cam pBatch objectID layoutIndex draw ms s shaderSubpass = (es, Inr s')"
    and "is_indexed_draw draw"
  shows "indexed_draws es = [draw]"
proof -
  obtain st subpassID where s: "s = (st, subpassID)" by (cases s)
  from assms(1) s obtain layoutID pso subpasses subpassData e1 st1 e2 where
    pso: "(if snd st \<noteq> pso then record_calls [Cmd (SetPipelineState pso)] (fst st, pso)
           else finished st) = (e1, Inr st1)"
    and bd: "buildDynamicDescriptors mul shaderSubpass subpassData cam pBatch objectID = (e2, Inr ())"
    and es: "es = e1 @ e2 @ [Cmd draw]"
    by (auto simp: drawShaderSubpass_def and_then_def thrown_def record_calls_def finished_def
        split: sum.splits prod.splits if_splits)
  have "indexed_draws e1 = []"
    using pso
    by (auto simp: record_calls_def finished_def indexed_draws_def commands_def is_indexed_draw_def
        split: if_splits)
  moreover have "indexed_draws e2 = []"
    using buildDynamicDescriptors_no_draws[of mul shaderSubpass subpassData cam pBatch objectID] bd
    by simp
  moreover have "indexed_draws [Cmd draw] = [draw]"
    using assms(2) by (simp add: indexed_draws_def commands_def)
  ultimately show ?thesis using es by (simp add: indexed_draws_append)
qed

lemma shaderSubpasses_draws:
  assumes "is_indexed_draw draw"
  shows "for_each (drawShaderSubpass mul cam pBatch objectID layoutIndex draw ms) s subs = (es, Inr s') \<Longrightarrow>
         indexed_draws es = replicate (length subs) draw"
proof (induction subs arbitrary: s es)
  case Nil
  then show ?case by (simp add: indexed_draws_Nil)
next
  case (Cons x xs)
  from Cons.prems obtain e1 s1 e2 where
    a: "drawShaderSubpass mul cam pBatch objectID layoutIndex draw ms s x = (e1, Inr s1)"
    and b: "for_each (drawShaderSubpass mul cam pBatch objectID layoutIndex draw ms) s1 xs = (e2, Inr s')"
    and es: "es = e1 @ e2"
    by (auto split: prod.splits sum.splits)
  show ?case
    using drawShaderSubpass_draws[OF a assms] Cons.IH[OF b] es
    by (simp add: indexed_draws_append)
qed

lemma setTopology_no_draws: "indexed_draws (fst (setTopology t st)) = []"
  by (simp add: setTopology_def record_no_draws finished_no_draws is_indexed_draw_def)

lemma drawMaterial_draws:
  assumes "drawMaterial mul cam solutionID pipelineID passID subpassID batch objectID mesh materialID st material
             = (es, Inr st')"
  shows "indexed_draws es = material_draws solutionID pipelineID passID subpassID mesh (materialID, material)"
proof -
  from assms obtain submesh queue subs e1 st1 e3 s3 where
    sm: "at (mSubMeshes mesh) materialID = Inr submesh"
    and q: "getSubpassData material solutionID pipelineID passID subpassID = Inr queue"
    and t: "setTopology (mPrimitiveTopology mesh) st = (e1, Inr st1)"
    and qs: "queue_subpasses queue = Inr subs"
    and loop: "for_each
                 (drawShaderSubpass mul cam (Some batch) objectID (mLayoutID mesh)
                    (DrawIndexedInstanced (mIndexCount submesh) 1 (mIndexOffset submesh) 0 0)
                    (queue_materialSubpasses queue))
                 (st1, 0) subs = (e3, Inr s3)"
    and es: "es = e1 @ [Cmd (IASetVertexBuffers (mVertexBufferViews mesh)),
                    Cmd (IASetIndexBuffer
                           (if mIndexBufferLocation mesh \<noteq> 0 then Some (mIndexBufferLocation mesh)
                            else None))] @ e3"
    by (auto simp: drawMaterial_def and_then_def thrown_def record_calls_def finished_def
        split: sum.splits prod.splits)
  have d: "is_indexed_draw (DrawIndexedInstanced (mIndexCount submesh) 1 (mIndexOffset submesh) 0 0)"
    by (simp add: is_indexed_draw_def)
  have e1: "indexed_draws e1 = []" using setTopology_no_draws[of "mPrimitiveTopology mesh" st] t by simp
  have mid: "indexed_draws [Cmd (IASetVertexBuffers (mVertexBufferViews mesh)),
                    Cmd (IASetIndexBuffer
                           (if mIndexBufferLocation mesh \<noteq> 0 then Some (mIndexBufferLocation mesh)
                            else None))] = []"
    by (simp add: indexed_draws_def commands_def is_indexed_draw_def)
  have sub: "submesh = mSubMeshes mesh ! materialID"
    using sm by (auto simp: at_def split: if_splits)
  have "indexed_draws es = indexed_draws e1 @ indexed_draws
                   [Cmd (IASetVertexBuffers (mVertexBufferViews mesh)),
                    Cmd (IASetIndexBuffer
                           (if mIndexBufferLocation mesh \<noteq> 0 then Some (mIndexBufferLocation mesh)
                            else None))] @ indexed_draws e3"
    by (simp only: es indexed_draws_append)
  then have "indexed_draws es = replicate (length subs)
          (DrawIndexedInstanced (mIndexCount submesh) 1 (mIndexOffset submesh) 0 0)"
    by (simp only: e1 mid shaderSubpasses_draws[OF d loop] append_Nil)
  then show ?thesis
    using q qs sub by (simp add: material_draws_def shaderSubpassCount_def)
qed

lemma materialsLoop_draws:
  "materialsLoop
     (drawMaterial mul cam solutionID pipelineID passID subpassID batch objectID mesh)
     n k st ms = (es, Inr st') \<Longrightarrow>
   indexed_draws es =
     concat (map (material_draws solutionID pipelineID passID subpassID mesh)
       (take (n - k) (enumerate k ms)))"
proof (induction ms arbitrary: k st es)
  case Nil
  then show ?case by (simp add: indexed_draws_Nil)
next
  case (Cons m ms)
  show ?case
  proof (cases "k \<ge> n")
    case True
    with Cons.prems show ?thesis by (simp add: indexed_draws_Nil)
  next
    case False
    with Cons.prems obtain e1 st1 e2 where
      a: "drawMaterial mul cam solutionID pipelineID passID subpassID batch objectID mesh k st m = (e1, Inr st1)"
      and b: "materialsLoop
               (drawMaterial mul cam solutionID pipelineID passID subpassID batch objectID mesh)
               n (k + 1) st1 ms = (e2, Inr st')"
      and es: "es = e1 @ e2"
      by (auto split: prod.splits sum.splits)
    from False obtain j where j: "n - k = Suc j" by (cases "n - k") auto
    then have j': "n - (k + 1) = j" by simp
    show ?thesis
      using drawMaterial_draws[OF a] Cons.IH[OF b] es j j'
      by (simp add: indexed_draws_append)
  qed
qed

lemma snd_take_enumerate:
  assumes "x \<in> set (take n (enumerate k ms))"
  shows "snd x \<in> set (take n ms)"
proof -
  have "map snd (take n (enumerate k ms)) = take n ms"
    by (simp only: take_map[symmetric] map_snd_enumerate)
  moreover have "snd x \<in> set (map snd (take n (enumerate k ms)))"
    using assms by (simp only: set_map) (rule imageI)
  ultimately show ?thesis by simp
qed

lemma length_concat_ones:
  assumes "\<And>x. x \<in> set xs \<Longrightarrow> length (f x) = 1"
  shows "length (concat (map f xs)) = length xs"
  using assms by (induction xs) simp_all

text \<open>
  Claim C7, as amended. When the traversal of a mesh renderer returns, its indexed draws
  are, for the materials in index order and only while the material index is below the
  number of submeshes of the mesh, one draw of the submesh with that index for every
  shader subpass of the material. When each of those materials has exactly one shader
  subpass, the number of draws is the smaller of the number of materials and the number
  of submeshes: two for three materials on two submeshes.
\<close>

theorem object_batch_draws:
  assumes "drawMeshRenderer mul cam solutionID pipelineID passID subpassID batch st (objectID, renderer)
             = (es, Inr st')"
  shows "indexed_draws es = renderer_draws solutionID pipelineID passID subpassID renderer \<and>
    ((\<forall>m\<in>set (take (length (mSubMeshes (mMesh renderer))) (mMaterials renderer)).
         shaderSubpassCount solutionID pipelineID passID subpassID m = 1) \<longrightarrow>
       length (indexed_draws es) = min (length (mMaterials renderer)) (length (mSubMeshes (mMesh renderer))))"
proof (rule conjI)
  let ?n = "length (mSubMeshes (mMesh renderer))"
  let ?ms = "take ?n (enumerate 0 (mMaterials renderer))"
  from assms have
    "materialsLoop
       (drawMaterial mul cam solutionID pipelineID passID subpassID batch objectID (mMesh renderer))
       ?n 0 st (mMaterials renderer) = (es, Inr st')"
    by (simp only: drawMeshRenderer_def prod.case)
  from materialsLoop_draws[OF this]
  show d: "indexed_draws es = renderer_draws solutionID pipelineID passID subpassID renderer"
    by (simp only: renderer_draws_def diff_zero)
  show "(\<forall>m\<in>set (take ?n (mMaterials renderer)).
         shaderSubpassCount solutionID pipelineID passID subpassID m = 1) \<longrightarrow>
       length (indexed_draws es) = min (length (mMaterials renderer)) ?n"
  proof
    assume one: "\<forall>m\<in>set (take ?n (mMaterials renderer)).
         shaderSubpassCount solutionID pipelineID passID subpassID m = 1"
    have each: "\<And>x. x \<in> set ?ms \<Longrightarrow>
        length (material_draws solutionID pipelineID passID subpassID (mMesh renderer) x) = 1"
    proof -
      fix x assume "x \<in> set ?ms"
      then have "snd x \<in> set (take ?n (mMaterials renderer))" by (rule snd_take_enumerate)
      with one have "shaderSubpassCount solutionID pipelineID passID subpassID (snd x) = 1" by blast
      then show "length (material_draws solutionID pipelineID passID subpassID (mMesh renderer) x) = 1"
        by (simp only: material_draws_def length_replicate)
    qed
    have "length (renderer_draws solutionID pipelineID passID subpassID renderer) = length ?ms"
      unfolding renderer_draws_def by (rule length_concat_ones) (rule each)
    also have "\<dots> = min (length (mMaterials renderer)) ?n"
      by (simp add: min.commute)
    finally show "length (indexed_draws es) = min (length (mMaterials renderer)) ?n"
      by (simp only: d)
  qed
qed

theorem object_batch_draws_witness:
  "snd (drawMeshRenderer example_mul example_cam 0 0 0 0 (example_batch 1) (0, 0) (0, example_renderer 1))
     = Inr (4, 7) \<and>
   indexed_draws
     (fst (drawMeshRenderer example_mul example_cam 0 0 0 0 (example_batch 1) (0, 0) (0, example_renderer 1)))
     = renderer_draws 0 0 0 0 (example_renderer 1) \<and>
   length (indexed_draws
     (fst (drawMeshRenderer example_mul example_cam 0 0 0 0 (example_batch 1) (0, 0) (0, example_renderer 1))))
     = 2"
proof -
  let ?D = "drawMeshRenderer example_mul example_cam 0 0 0 0 (example_batch 1) (0, 0) (0, example_renderer 1)"
  have s: "snd ?D = Inr (4, 7)" by code_simp
  then obtain es where h: "?D = (es, Inr (4, 7))" by (cases ?D) simp
  note r = object_batch_draws[OF h]
  have one: "\<forall>m\<in>set (take (length (mSubMeshes (mMesh (example_renderer 1))))
                 (mMaterials (example_renderer 1))).
               shaderSubpassCount 0 0 0 0 m = 1"
    by (simp add: example_renderer_def example_mesh_def example_material_def shaderSubpassCount_def)
  from r one have len: "length (indexed_draws es)
      = min (length (mMaterials (example_renderer 1))) (length (mSubMeshes (mMesh (example_renderer 1))))"
    by blast
  have "min (length (mMaterials (example_renderer 1))) (length (mSubMeshes (mMesh (example_renderer 1)))) = 2"
    by (simp add: example_renderer_def example_mesh_def)
  with len have two: "length (indexed_draws es) = 2" by simp
  from r have d: "indexed_draws es = renderer_draws 0 0 0 0 (example_renderer 1)" by blast
  have f: "fst ?D = es" by (simp only: h fst_conv)
  from s d two show ?thesis by (simp only: f)
qed

text \<open>
  The claim as the specification words it (three materials on two submeshes give exactly
  two indexed draws) fails when the materials have two shader subpasses each: the
  traversal returns with four indexed draws, two of each submesh.
\<close>

theorem object_batch_two_draws_counterexample:
  "length (mMaterials (example_renderer 2)) = 3 \<and>
   length (mSubMeshes (mMesh (example_renderer 2))) = 2 \<and>
   snd (drawMeshRenderer example_mul example_cam 0 0 0 0 (example_batch 2) (0, 0) (0, example_renderer 2))
     = Inr (4, 7) \<and>
   indexed_draws
     (fst (drawMeshRenderer example_mul example_cam 0 0 0 0 (example_batch 2) (0, 0) (0, example_renderer 2)))
     = [DrawIndexedInstanced 36 1 0 0 0, DrawIndexedInstanced 36 1 0 0 0,
        DrawIndexedInstanced 12 1 36 0 0, DrawIndexedInstanced 12 1 36 0 0]"
proof (intro conjI)
  show "length (mMaterials (example_renderer 2)) = 3" by (simp add: example_renderer_def)
  show "length (mSubMeshes (mMesh (example_renderer 2))) = 2"
    by (simp add: example_renderer_def example_mesh_def)
  show "snd (drawMeshRenderer example_mul example_cam 0 0 0 0 (example_batch 2) (0, 0) (0, example_renderer 2))
     = Inr (4, 7)"
    by code_simp
  show "indexed_draws
     (fst (drawMeshRenderer example_mul example_cam 0 0 0 0 (example_batch 2) (0, 0) (0, example_renderer 2)))
     = [DrawIndexedInstanced 36 1 0 0 0, DrawIndexedInstanced 36 1 0 0 0,
        DrawIndexedInstanced 12 1 36 0 0, DrawIndexedInstanced 12 1 36 0 0]"
    by code_simp
qed

subsection \<open>buildShaderData: storing or compiling a stage\<close>

lemma addInput_buffers: "mPS (addInput sd i) = mPS sd \<and> mVS (addInput sd i) = mVS sd"
  by (cases i) (simp add: addInput_def)

lemma foldl_addInput_buffers:
  "mPS (foldl addInput sd ins) = mPS sd \<and> mVS (foldl addInput sd ins) = mVS sd"
  by (induction ins arbitrary: sd) (simp_all add: addInput_buffers)

text \<open>
  Claim C9. For the pixel stage and for the vertex stage of \<^verbatim>\<open>buildShaderData\<close>: with
  \<^verbatim>\<open>bCompile\<close> false, an empty program buffer (\<^verbatim>\<open>mPS\<close>, \<^verbatim>\<open>mVS\<close>) receives the generated text
  and nothing is compiled, and a buffer that is not empty violates the \<^verbatim>\<open>Expects\<close>; with
  \<^verbatim>\<open>bCompile\<close> true the generated text is handed to the compiler at once and the buffer is
  what the compiler gives.
\<close>

theorem buildStage_store_or_compile:
  "(\<not> bCompile \<and> mPS sd = [] \<longrightarrow>
      buildStage compileShader bCompile shaderName inputs sd PS text = Inr (sd\<lparr>mPS := text\<rparr>)) \<and>
   (\<not> bCompile \<and> mPS sd \<noteq> [] \<longrightarrow>
      buildStage compileShader bCompile shaderName inputs sd PS text = Inl ExpectsViolation) \<and>
   (bCompile \<longrightarrow>
      buildStage compileShader bCompile shaderName inputs sd PS text =
        (case compileShader (mPS sd) ''ps_5_0'' (shaderName @ ''.vs'') text of
           Inl e \<Rightarrow> Inl e
         | Inr compiled \<Rightarrow> Inr (sd\<lparr>mPS := compiled\<rparr>))) \<and>
   (\<not> bCompile \<and> mVS sd = [] \<longrightarrow>
      buildStage compileShader bCompile shaderName (Inr ins) sd VS text =
        Inr ((foldl addInput sd ins)\<lparr>mVS := text\<rparr>)) \<and>
   (\<not> bCompile \<and> mVS sd \<noteq> [] \<longrightarrow>
      buildStage compileShader bCompile shaderName (Inr ins) sd VS text = Inl ExpectsViolation) \<and>
   (bCompile \<longrightarrow>
      buildStage compileShader bCompile shaderName (Inr ins) sd VS text =
        (case compileShader (mVS sd) ''vs_5_0'' (shaderName @ ''.vs'') text of
           Inl e \<Rightarrow> Inl e
         | Inr compiled \<Rightarrow> Inr ((foldl addInput sd ins)\<lparr>mVS := compiled\<rparr>)))"
  by (simp add: buildStage_def Let_def foldl_addInput_buffers)

theorem buildStage_store_or_compile_witness:
  "mPS example_shader_data \<noteq> [] \<and>
   buildStage example_compileShader False ''0/@/Sky'' (Inr []) example_shader_data PS ''text''
     = Inl ExpectsViolation"
proof -
  have h: "\<not> False \<and> mPS example_shader_data \<noteq> []"
    by (simp add: example_shader_data_def)
  note r = buildStage_store_or_compile[THEN conjunct2, THEN conjunct1, rule_format, OF h]
  from h r show ?thesis by blast
qed


end
